theory Spec2Isabelle
  imports Complex_Main "HOL-Library.Sublist" "HOL-Library.Char_ord" "HOL-Library.List_Lexorder"
    "HOL-Library.Multiset" "HOL-Library.Log_Nat"
begin

section \<open>Python string primitives used by the stage scripts\<close>

text \<open>
  The stage scripts correlate artifacts by file names, so the model starts with the
  string operations they call. Strings are \<^typ>\<open>string\<close>; every function below
  computes what the Python built-in of the same name returns.
\<close>

text \<open>\<^verbatim>\<open>sub in s\<close>: \<open>sub\<close> occurs in \<open>s\<close> as a contiguous block.\<close>

fun py_in :: "string \<Rightarrow> string \<Rightarrow> bool" where
  "py_in sub [] = (sub = [])"
| "py_in sub (c # s) = (prefix sub (c # s) \<or> py_in sub s)"

text \<open>
  \<^verbatim>\<open>s.replace(old, new)\<close>: the occurrences of \<open>old\<close> are found from left to right,
  without overlap, and the result is not scanned again. With an empty \<open>old\<close> Python
  inserts \<open>new\<close> before every character and at the end.
\<close>

function replace :: "string \<Rightarrow> string \<Rightarrow> string \<Rightarrow> string" where
  "replace old new s =
     (if old = [] then new @ concat (map (\<lambda>c. c # new) s)
      else if s = [] then []
      else if prefix old s then new @ replace old new (drop (length old) s)
      else hd s # replace old new (tl s))"
  by pat_completeness auto
termination
  by (relation "measure (\<lambda>(old, new, s). length s)") auto

declare replace.simps [simp del]

text \<open>\<^verbatim>\<open>os.path.basename(p)\<close>: what follows the last slash.\<close>

definition basename :: "string \<Rightarrow> string" where
  "basename p = rev (takeWhile (\<lambda>c. c \<noteq> CHR ''/'') (rev p))"

text \<open>
  ASCII white space, as \<^verbatim>\<open>str.strip()\<close> and \<^verbatim>\<open>str.split()\<close> without
  arguments see it: blank, tab, line feed, vertical tab, form feed, carriage return and the
  four separators \<open>0x1C\<close> to \<open>0x1F\<close>.
\<close>

definition is_space :: "char \<Rightarrow> bool" where
  "is_space c = (c \<in> set [CHR 0x20, CHR 0x09, CHR 0x0A, CHR 0x0B, CHR 0x0C, CHR 0x0D,
                              CHR 0x1C, CHR 0x1D, CHR 0x1E, CHR 0x1F])"

text \<open>\<^verbatim>\<open>s.strip()\<close>\<close>

definition strip :: "string \<Rightarrow> string" where
  "strip s = rev (dropWhile is_space (rev (dropWhile is_space s)))"

text \<open>\<^verbatim>\<open>s.split(c)\<close> for a one-character separator: never an empty list.\<close>

fun split_on_from :: "char \<Rightarrow> string \<Rightarrow> string \<Rightarrow> string list" where
  "split_on_from c cur [] = [rev cur]"
| "split_on_from c cur (x # xs) =
     (if x = c then rev cur # split_on_from c [] xs else split_on_from c (x # cur) xs)"

definition split_on :: "char \<Rightarrow> string \<Rightarrow> string list" where
  "split_on c s = split_on_from c [] s"

text \<open>\<^verbatim>\<open>s.split()\<close>: the maximal runs of characters that are not white space.\<close>

fun split_ws_from :: "string \<Rightarrow> string \<Rightarrow> string list" where
  "split_ws_from cur [] = (if cur = [] then [] else [rev cur])"
| "split_ws_from cur (c # s) =
     (if is_space c then (if cur = [] then split_ws_from [] s else rev cur # split_ws_from [] s)
      else split_ws_from (c # cur) s)"

definition split_ws :: "string \<Rightarrow> string list" where
  "split_ws s = split_ws_from [] s"

text \<open>
  \<^verbatim>\<open>os.path.join(a, b)\<close> on POSIX: an absolute \<open>b\<close> replaces \<open>a\<close>; otherwise one
  slash separates them unless \<open>a\<close> is empty or ends with a slash already.
\<close>

definition path_join :: "string \<Rightarrow> string \<Rightarrow> string" where
  "path_join a b =
     (if prefix ''/'' b then b
      else if a = [] \<or> last a = CHR ''/'' then a @ b
      else a @ ''/'' @ b)"

section \<open>Identity keys\<close>

text \<open>
  \<^verbatim>\<open>protein_name = os.path.basename(protein_file).replace("out-", "").replace(".pdbqt", "")\<close>
  (41.idock.py line 55, 42.vina.py line 84, both rescoring scripts).
\<close>

definition protein_name_of :: "string \<Rightarrow> string" where
  "protein_name_of protein_file =
     replace ''.pdbqt'' [] (replace ''out-'' [] (basename protein_file))"

text \<open>\<^verbatim>\<open>ligand_name = os.path.basename(ligand_file).replace('.pdbqt', '')\<close>\<close>

definition ligand_name_of :: "string \<Rightarrow> string" where
  "ligand_name_of ligand_file = replace ''.pdbqt'' [] (basename ligand_file)"

section \<open>The docking stage\<close>

text \<open>
  One invocation of a docking engine. The scripts build a shell command from these parts;
  the box size is the same in every command of a run and is left out. \<open>log_file\<close> is the
  \<^verbatim>\<open>--log\<close> argument, which only the Vina command has.
\<close>

record dock_cmd =
  receptor :: string
  ligand :: string
  center_x :: string
  center_y :: string
  center_z :: string
  out_file :: string
  log_file :: "string option"

text \<open>
  What a docking script works in: the lines of the centre file as \<^verbatim>\<open>readlines()\<close>
  returns them, the ligand argument, the output directory, the outcome of
  \<^verbatim>\<open>subprocess.run(command, shell=True, check=True)\<close> (\<open>True\<close>: exit status 0,
  \<open>False\<close>: \<^verbatim>\<open>CalledProcessError\<close>) and the elapsed time of a protein as the text
  \<^verbatim>\<open>{elapsed_time:.2f}\<close> prints.
\<close>

record dock_env =
  lines :: "string list"
  ligand_path :: string
  output_folder :: string
  run_ok :: "dock_cmd \<Rightarrow> bool"
  elapsed :: "string \<Rightarrow> string"

definition log_header :: string where
  "log_header = ''Protein Name,Time (s),Status''"

text \<open>\<^verbatim>\<open>f"{protein_name},{elapsed_time:.2f},{status}\n"\<close>, one line of the log.\<close>

definition log_row :: "string \<Rightarrow> string \<Rightarrow> string \<Rightarrow> string" where
  "log_row protein_name time status = protein_name @ '','' @ time @ '','' @ status"

subsection \<open>41.idock.py\<close>

definition idock_command :: "dock_env \<Rightarrow> string \<Rightarrow> string list \<Rightarrow> dock_cmd" where
  "idock_command env protein_file parts =
     \<lparr>receptor = protein_file, ligand = ligand_path env,
      center_x = parts ! 1, center_y = parts ! 2, center_z = parts ! 3,
      out_file = path_join (output_folder env) (parts ! 0) @ ''.pdbqt'',
      log_file = None\<rparr>"

text \<open>
  The body of \<^verbatim>\<open>for line in lines\<close> in \<^verbatim>\<open>process_protein_file\<close>; the loop state
  is \<open>matched\<close>, \<open>status\<close> and the commands run so far.
\<close>

definition idock_line ::
  "dock_env \<Rightarrow> string \<Rightarrow> bool \<times> string \<times> dock_cmd list \<Rightarrow> string \<Rightarrow> bool \<times> string \<times> dock_cmd list"
where
  "idock_line env protein_file st line =
     (case st of (matched, status, cmds) \<Rightarrow>
        if py_in (protein_name_of protein_file) line then
          (let parts = split_on CHR '','' (strip line) in
           if length parts \<noteq> 4 then (True, status, cmds)
           else (let command = idock_command env protein_file parts in
                 (True, if run_ok env command then ''Success'' else ''Failed'',
                  cmds @ [command])))
        else (matched, status, cmds))"

definition idock_scan :: "dock_env \<Rightarrow> string \<Rightarrow> bool \<times> string \<times> dock_cmd list" where
  "idock_scan env protein_file =
     foldl (idock_line env protein_file) (False, ''No Match'', []) (lines env)"

text \<open>
  \<^verbatim>\<open>process_protein_file\<close>: the commands it ran and the log after its one append.
\<close>

definition idock_process_protein_file ::
  "dock_env \<Rightarrow> string list \<Rightarrow> string \<Rightarrow> dock_cmd list \<times> string list"
where
  "idock_process_protein_file env log_lines protein_file =
     (case idock_scan env protein_file of (matched, status, cmds) \<Rightarrow>
        (cmds, log_lines @ [log_row (protein_name_of protein_file) (elapsed env protein_file) status]))"

text \<open>
  The script: the log is created with the header, then every protein file is processed
  (the \<^verbatim>\<open>for pf in protein_files\<close> branch; \<^verbatim>\<open>pool.map\<close> calls the same function
  once per file).
\<close>

definition idock_log :: "dock_env \<Rightarrow> string list \<Rightarrow> string list" where
  "idock_log env protein_files =
     foldl (\<lambda>log_lines pf. snd (idock_process_protein_file env log_lines pf)) [log_header] protein_files"

subsection \<open>42.vina.py\<close>

definition vina_command :: "dock_env \<Rightarrow> string \<Rightarrow> string list \<Rightarrow> string \<Rightarrow> dock_cmd" where
  "vina_command env protein_file parts ligand_file =
     \<lparr>receptor = protein_file, ligand = ligand_file,
      center_x = parts ! 1, center_y = parts ! 2, center_z = parts ! 3,
      out_file = path_join (output_folder env) (parts ! 0 @ ''_'' @ ligand_name_of ligand_file @ ''.pdbqt''),
      log_file = Some (path_join (output_folder env)
                         (parts ! 0 @ ''_'' @ ligand_name_of ligand_file @ ''_docking.log''))\<rparr>"

definition vina_line ::
  "dock_env \<Rightarrow> string list \<Rightarrow> string \<Rightarrow> bool \<times> dock_cmd list \<Rightarrow> string \<Rightarrow> bool \<times> dock_cmd list"
where
  "vina_line env ligand_files protein_file st line =
     (case st of (matched, cmds) \<Rightarrow>
        if py_in (protein_name_of protein_file) line then
          (let parts = split_on CHR '','' (strip line) in
           if length parts \<noteq> 4 then (True, cmds)
           else (True, cmds @ map (vina_command env protein_file parts) ligand_files))
        else (matched, cmds))"

definition vina_scan :: "dock_env \<Rightarrow> string list \<Rightarrow> string \<Rightarrow> bool \<times> dock_cmd list" where
  "vina_scan env ligand_files protein_file =
     foldl (vina_line env ligand_files protein_file) (False, []) (lines env)"

text \<open>
  \<^verbatim>\<open>process_protein_file\<close> of the Vina script. \<open>ligand_files\<close> is what
  \<^verbatim>\<open>get_ligand_files(ligand_path)\<close> returns; with no ligand the function returns
  before it writes anything. A failed Vina command is only printed.
\<close>

definition vina_process_protein_file ::
  "dock_env \<Rightarrow> string list \<Rightarrow> string list \<Rightarrow> string \<Rightarrow> dock_cmd list \<times> string list"
where
  "vina_process_protein_file env ligand_files log_lines protein_file =
     (if ligand_files = [] then ([], log_lines)
      else (case vina_scan env ligand_files protein_file of (matched, cmds) \<Rightarrow>
        (cmds, log_lines @ [log_row (protein_name_of protein_file) (elapsed env protein_file)
                        (if matched then ''Success'' else ''No Matching Center Coordinates'')])))"

text \<open>
  The script opens \<^verbatim>\<open>docking_log.txt\<close> in append mode only: \<open>old_log\<close> is what the
  file held before the run (nothing when it did not exist).
\<close>

definition vina_log :: "dock_env \<Rightarrow> string list \<Rightarrow> string list \<Rightarrow> string list \<Rightarrow> string list" where
  "vina_log env ligand_files old_log protein_files =
     foldl (\<lambda>log_lines pf. snd (vina_process_protein_file env ligand_files log_lines pf)) old_log protein_files"

subsection \<open>The rescoring scripts' pairing of proteins and docking results\<close>

text \<open>
  \<^verbatim>\<open>[lf for lf in ligand_files if protein_name in os.path.basename(lf)]\<close>
  (51.idock-Rescoring.py line 104, 52.vina-Rescoring.py line 119).
\<close>

definition matched_ligands :: "string list \<Rightarrow> string \<Rightarrow> string list" where
  "matched_ligands ligand_files protein_file =
     filter (\<lambda>lf. py_in (protein_name_of protein_file) (basename lf)) ligand_files"

section \<open>Numbers\<close>

text \<open>
  The scripts compute with Python floats. The model writes a float as the rational
  number it denotes, and every operation rounds its exact result to the nearest number
  with a significand of 53 bits, a tie going to the even significand, as the arithmetic
  of Python floats does. The exponent is not bounded: the model has no overflow to
  infinity and no subnormal numbers, so that it is Python's arithmetic as long as the
  results are zero or of a magnitude between \<open>2\<^sup>-\<^sup>1\<^sup>0\<^sup>2\<^sup>2\<close> and \<open>2\<^sup>1\<^sup>0\<^sup>2\<^sup>4\<close>;
  the infinities and \<open>nan\<close> are not modelled.
\<close>

text \<open>Rounding to an integer, a tie going to the even one.\<close>

definition round_half_even :: "rat \<Rightarrow> int" where
  "round_half_even y =
     (let f = \<lfloor>y\<rfloor>; d = y - of_int f
      in if d < 1 / 2 then f else if 1 / 2 < d then f + 1
         else if even f then f else f + 1)"

text \<open>The exponent of a number other than zero: \<open>2\<^sup>e \<le> \<bar>x\<bar> < 2\<^sup>e\<^sup>+\<^sup>1\<close>.\<close>

definition ilog2 :: "rat \<Rightarrow> int" where
  "ilog2 x =
     (case quotient_of \<bar>x\<bar> of (p, q) \<Rightarrow>
        (let e = bitlen p - bitlen q in if 2 powi e \<le> \<bar>x\<bar> then e else e - 1))"

text \<open>The float nearest to a number.\<close>

definition binary64 :: "rat \<Rightarrow> rat" where
  "binary64 x =
     (if x = 0 then 0
      else (let ulp = 2 powi (ilog2 x - 52) in of_int (round_half_even (x / ulp)) * ulp))"

text \<open>
  \<^verbatim>\<open>float(s)\<close> is a parameter of the model (\<open>None\<close> stands for \<^verbatim>\<open>ValueError\<close>).
  Where a concrete input is evaluated it is \<open>dec_float\<close>, its restriction to plain decimal
  numerals (sign, digits, point, digits): the float nearest to \<open>dec_value\<close>, the number
  that the numeral denotes.
\<close>

definition digit_val :: "char \<Rightarrow> nat option" where
  "digit_val c =
     (if 48 \<le> (of_char c :: nat) \<and> (of_char c :: nat) \<le> 57 then Some (of_char c - 48) else None)"

fun digits_val :: "nat \<Rightarrow> string \<Rightarrow> nat option" where
  "digits_val acc [] = Some acc"
| "digits_val acc (c # cs) =
     (case digit_val c of None \<Rightarrow> None | Some d \<Rightarrow> digits_val (10 * acc + d) cs)"

definition unsigned_dec :: "string \<Rightarrow> rat option" where
  "unsigned_dec s =
     (let ip = takeWhile (\<lambda>c. c \<noteq> CHR ''.'') s;
          fp = drop (Suc (length ip)) s
      in if ip = [] \<and> fp = [] then None
         else (case digits_val 0 ip of None \<Rightarrow> None
               | Some i \<Rightarrow> (case digits_val 0 fp of None \<Rightarrow> None
                  | Some f \<Rightarrow> Some (of_nat i + of_nat f / 10 ^ length fp))))"

definition dec_value :: "string \<Rightarrow> rat option" where
  "dec_value s =
     (case strip s of [] \<Rightarrow> None
      | c # cs \<Rightarrow>
          if c = CHR ''-'' then map_option uminus (unsigned_dec cs)
          else if c = CHR ''+'' then unsigned_dec cs
          else unsigned_dec (c # cs))"

definition dec_float :: "string \<Rightarrow> rat option" where
  "dec_float s = map_option binary64 (dec_value s)"

text \<open>
  \<^verbatim>\<open>int(s)\<close> is a parameter as well; \<open>dec_int\<close> is its restriction to an optional
  sign followed by digits.
\<close>

definition dec_int :: "string \<Rightarrow> int option" where
  "dec_int s =
     (case strip s of [] \<Rightarrow> None
      | c # cs \<Rightarrow>
          if c = CHR ''-'' then (if cs = [] then None else map_option (\<lambda>n. - int n) (digits_val 0 cs))
          else if c = CHR ''+'' then (if cs = [] then None else map_option int (digits_val 0 cs))
          else map_option int (digits_val 0 (c # cs)))"

text \<open>
  \<^verbatim>\<open>round(x, ndigits)\<close> of a float: the exact value of \<open>x\<close> is rounded to
  \<open>ndigits\<close> decimals, a tie going to the even last digit, and the float nearest to that
  decimal number is returned.
\<close>

definition py_round :: "rat \<Rightarrow> nat \<Rightarrow> rat" where
  "py_round x ndigits = binary64 (of_int (round_half_even (x * 10 ^ ndigits)) / 10 ^ ndigits)"

text \<open>The arithmetic mean of exact numbers, for stating what a centre should be.\<close>

definition mean :: "rat list \<Rightarrow> rat" where
  "mean xs = sum_list xs / of_nat (length xs)"

text \<open>
  The sum and the mean of a list of floats as a loop of \<^verbatim>\<open>s += x\<close> followed by
  \<^verbatim>\<open>s / n\<close> computes them.
\<close>

definition float_sum :: "rat list \<Rightarrow> rat" where
  "float_sum xs = foldl (\<lambda>s x. binary64 (s + x)) 0 xs"

definition float_mean :: "rat list \<Rightarrow> rat" where
  "float_mean xs = binary64 (float_sum xs / of_nat (length xs))"

datatype py_error = FileNotFoundError | ValueError | IndexError | StopIteration

section \<open>The pocket stage: 3.site-prediction.py\<close>

subsection \<open>\<^verbatim>\<open>calculate_average_coordinates\<close>\<close>

text \<open>\<^verbatim>\<open>line[i:j].strip()\<close>, the text of a fixed-column field.\<close>

definition field :: "nat \<Rightarrow> nat \<Rightarrow> string \<Rightarrow> string" where
  "field i j line = strip (take (j - i) (drop i line))"

text \<open>
  The body of \<^verbatim>\<open>for line in file\<close>; the state holds the three sums and
  \<open>num_atoms\<close>. \<open>None\<close>: \<^verbatim>\<open>float\<close> raised.
\<close>

definition atom_line ::
  "(string \<Rightarrow> rat option) \<Rightarrow> rat \<times> rat \<times> rat \<times> nat \<Rightarrow> string \<Rightarrow> (rat \<times> rat \<times> rat \<times> nat) option"
where
  "atom_line flt st line =
     (case st of (sx, sy, sz, num_atoms) \<Rightarrow>
        if prefix ''ATOM'' line then
          (case flt (field 30 38 line) of None \<Rightarrow> None
           | Some x \<Rightarrow> (case flt (field 38 46 line) of None \<Rightarrow> None
           | Some y \<Rightarrow> (case flt (field 46 54 line) of None \<Rightarrow> None
           | Some z \<Rightarrow>
               Some (binary64 (sx + x), binary64 (sy + y), binary64 (sz + z), num_atoms + 1))))
        else Some st)"

fun atom_lines ::
  "(string \<Rightarrow> rat option) \<Rightarrow> rat \<times> rat \<times> rat \<times> nat \<Rightarrow> string list \<Rightarrow> (rat \<times> rat \<times> rat \<times> nat) option"
where
  "atom_lines flt st [] = Some st"
| "atom_lines flt st (line # rest) =
     (case atom_line flt st line of None \<Rightarrow> None | Some st' \<Rightarrow> atom_lines flt st' rest)"

text \<open>
  \<open>file\<close> is \<open>None\<close> when the file cannot be opened. Every exception ends in
  \<^verbatim>\<open>return None\<close>.
\<close>

definition calculate_average_coordinates ::
  "(string \<Rightarrow> rat option) \<Rightarrow> string list option \<Rightarrow> (rat \<times> rat \<times> rat) option"
where
  "calculate_average_coordinates flt file =
     (case file of None \<Rightarrow> None
      | Some file_lines \<Rightarrow>
         (case atom_lines flt (0, 0, 0, 0) file_lines of None \<Rightarrow> None
          | Some (sx, sy, sz, num_atoms) \<Rightarrow>
              if num_atoms = 0 then None
              else Some (py_round (binary64 (sx / of_nat num_atoms)) 3,
                         py_round (binary64 (sy / of_nat num_atoms)) 3,
                         py_round (binary64 (sz / of_nat num_atoms)) 3)))"

text \<open>
  The coordinates read from columns \<open>i\<close> to \<open>j\<close> of the ATOM records of a file,
  for stating what a centre should be.
\<close>

definition atom_coords :: "(string \<Rightarrow> rat option) \<Rightarrow> nat \<Rightarrow> nat \<Rightarrow> string list \<Rightarrow> rat list" where
  "atom_coords flt i j file_lines =
     List.map_filter (\<lambda>l. flt (field i j l)) (filter (prefix ''ATOM'') file_lines)"

subsection \<open>\<^verbatim>\<open>process_one_pdb\<close>\<close>

text \<open>
  \<^verbatim>\<open>os.path.splitext(p)[0]\<close>: the last dot of the base name starts the extension,
  unless only dots come before it.
\<close>

definition splitext_root :: "string \<Rightarrow> string" where
  "splitext_root p =
     (let b = basename p;
          dir = take (length p - length b) p;
          dots = takeWhile (\<lambda>c. c = CHR ''.'') b;
          rest = dropWhile (\<lambda>c. c = CHR ''.'') b
      in if CHR ''.'' \<in> set rest
         then dir @ dots @ rev (tl (dropWhile (\<lambda>c. c \<noteq> CHR ''.'') (rev rest)))
         else p)"

type_synonym residue_dict = "string \<rightharpoonup> int list"

record coord_row =
  PDB_File :: string
  X :: rat
  Y :: rat
  Z :: rat

record 's pocket_result = coord_row +
  Score :: 's

text \<open>
  What the script calls outside this repository: P2Rank followed by
  \<^verbatim>\<open>pd.read_csv\<close> (\<open>predictions pdb\<close>: the rows of the prediction table as pairs
  of residue ids and score, \<open>None\<close> when the table is missing or unreadable),
  \<^verbatim>\<open>save_pocket2pdb\<close>, which is built on Bio.PDB (the lines it wrote to
  \<open>savepath\<close>, \<open>None\<close> when it returned \<open>False\<close>), \<^verbatim>\<open>float\<close>, \<^verbatim>\<open>int\<close> and the text of
  a score inside an f-string.
\<close>

record 's site_env =
  predictions :: "string \<Rightarrow> (string \<times> 's) list option"
  save_pocket2pdb :: "string \<Rightarrow> residue_dict \<Rightarrow> string \<Rightarrow> string list option"
  py_float :: "string \<Rightarrow> rat option"
  py_int :: "string \<Rightarrow> int option"
  str_score :: "'s \<Rightarrow> string"

definition extract_predicted_pocket :: "'s site_env \<Rightarrow> string \<Rightarrow> string list \<times> 's list" where
  "extract_predicted_pocket env pdb =
     (case predictions env pdb of None \<Rightarrow> ([], [])
      | Some rows \<Rightarrow> (map fst (take (min 3 (length rows)) rows),
                        map snd (take (min 3 (length rows)) rows)))"

text \<open>
  The loop over the items of one residue list. \<open>None\<close>: unpacking
  \<^verbatim>\<open>item.split("_")\<close> into two names raised \<^verbatim>\<open>ValueError\<close>; an item whose number
  \<^verbatim>\<open>int\<close> rejects is skipped.
\<close>

fun residue_items :: "(string \<Rightarrow> int option) \<Rightarrow> residue_dict \<Rightarrow> string list \<Rightarrow> residue_dict option" where
  "residue_items pint d [] = Some d"
| "residue_items pint d (item # items) =
     (if CHR ''_'' \<in> set item then
        (case split_on CHR ''_'' item of
           [chain_id, res_id] \<Rightarrow>
             (case pint res_id of None \<Rightarrow> residue_items pint d items
              | Some r \<Rightarrow>
                  residue_items pint
                    (d(chain_id \<mapsto> (case d chain_id of None \<Rightarrow> [r] | Some rs \<Rightarrow> rs @ [r]))) items)
         | _ \<Rightarrow> None)
      else residue_items pint d items)"

text \<open>
  \<^verbatim>\<open>save_name = f"pocket_{score_list[i]}_{pdbname}"\<close> and
  \<^verbatim>\<open>save_path = os.path.join(output_dir, save_name)\<close>.
\<close>

definition save_name :: "'s site_env \<Rightarrow> string \<Rightarrow> 's \<Rightarrow> string" where
  "save_name env pdb score = ''pocket_'' @ str_score env score @ ''_'' @ basename pdb"

definition save_path :: "'s site_env \<Rightarrow> string \<Rightarrow> string \<Rightarrow> 's \<Rightarrow> string" where
  "save_path env pdb output_dir score = path_join output_dir (save_name env pdb score)"

text \<open>
  One round of \<^verbatim>\<open>for i, obj in enumerate(pocket_all_list)\<close>: \<open>Inl\<close> when an
  exception reaches the \<^verbatim>\<open>except Exception\<close> around the loop, \<open>Inr None\<close> when the
  round appends nothing, \<open>Inr (Some r)\<close> when it appends \<open>r\<close>.
\<close>

definition pocket_round ::
  "'s site_env \<Rightarrow> string \<Rightarrow> string \<Rightarrow> string \<Rightarrow> 's \<Rightarrow> py_error + 's pocket_result option"
where
  "pocket_round env pdb output_dir obj score =
     (case residue_items (py_int env) Map.empty (split_ws (strip obj)) of
        None \<Rightarrow> Inl ValueError
      | Some residue_dict \<Rightarrow>
          (case save_pocket2pdb env pdb residue_dict (save_path env pdb output_dir score) of
             None \<Rightarrow> Inr None
           | Some written \<Rightarrow>
               (case calculate_average_coordinates (py_float env) (Some written) of
                  None \<Rightarrow> Inr None
                | Some (x, y, z) \<Rightarrow>
                    Inr (Some \<lparr>PDB_File = splitext_root (save_name env pdb score),
                               X = x, Y = y, Z = z, Score = score\<rparr>))))"

fun pocket_rounds ::
  "'s site_env \<Rightarrow> string \<Rightarrow> string \<Rightarrow> 's pocket_result list \<Rightarrow> (string \<times> 's) list \<Rightarrow> 's pocket_result list"
where
  "pocket_rounds env pdb output_dir pocket_results [] = pocket_results"
| "pocket_rounds env pdb output_dir pocket_results ((obj, score) # rest) =
     (case pocket_round env pdb output_dir obj score of
        Inl e \<Rightarrow> pocket_results
      | Inr None \<Rightarrow> pocket_rounds env pdb output_dir pocket_results rest
      | Inr (Some r) \<Rightarrow> pocket_rounds env pdb output_dir (pocket_results @ [r]) rest)"

definition process_one_pdb :: "'s site_env \<Rightarrow> string \<times> string \<Rightarrow> 's pocket_result list" where
  "process_one_pdb env args =
     (case args of (pdb, output_dir) \<Rightarrow>
        (case extract_predicted_pocket env pdb of (pocket_all_list, score_list) \<Rightarrow>
           pocket_rounds env pdb output_dir [] (zip pocket_all_list score_list)))"

text \<open>
  What the rounds leave in the output directory: \<^verbatim>\<open>io.save(savepath)\<close> writes the file
  at \<open>save_path\<close> and replaces what was there. \<open>files\<close> maps a path to the lines of
  its file.
\<close>

fun pocket_files ::
  "'s site_env \<Rightarrow> string \<Rightarrow> string \<Rightarrow> (string \<rightharpoonup> string list) \<Rightarrow> (string \<times> 's) list \<Rightarrow> (string \<rightharpoonup> string list)"
where
  "pocket_files env pdb output_dir files [] = files"
| "pocket_files env pdb output_dir files ((obj, score) # rest) =
     (case residue_items (py_int env) Map.empty (split_ws (strip obj)) of
        None \<Rightarrow> files
      | Some residue_dict \<Rightarrow>
          (case save_pocket2pdb env pdb residue_dict (save_path env pdb output_dir score) of
             None \<Rightarrow> pocket_files env pdb output_dir files rest
           | Some written \<Rightarrow>
               pocket_files env pdb output_dir
                 (files(save_path env pdb output_dir score \<mapsto> written)) rest))"

definition process_one_pdb_files ::
  "'s site_env \<Rightarrow> string \<times> string \<Rightarrow> (string \<rightharpoonup> string list) \<Rightarrow> (string \<rightharpoonup> string list)"
where
  "process_one_pdb_files env args files =
     (case args of (pdb, output_dir) \<Rightarrow>
        (case extract_predicted_pocket env pdb of (pocket_all_list, score_list) \<Rightarrow>
           pocket_files env pdb output_dir files (zip pocket_all_list score_list)))"

subsection \<open>The coordinate table written by \<^verbatim>\<open>main\<close>\<close>

text \<open>The data frame of \<open>all_results\<close>, restricted to the columns \<open>PDB_File\<close>, \<open>X\<close>, \<open>Y\<close>, \<open>Z\<close>.\<close>

definition columns :: "'s pocket_result \<Rightarrow> coord_row" where
  "columns r = \<lparr>PDB_File = PDB_File r, X = X r, Y = Y r, Z = Z r\<rparr>"

text \<open>
  \<^verbatim>\<open>df.sort_values('PDB_File')\<close> is the sort of pandas with its default
  \<^verbatim>\<open>kind='quicksort'\<close>. It returns the rows in ascending order of the key, in the order
  of Python strings, which on \<^typ>\<open>string\<close> is the lexicographic order of the
  characters; the order it gives to rows with equal keys is not fixed by pandas. The sort
  is therefore a parameter of the model, and \<open>is_sort_values\<close> says what is known of it.
\<close>

definition is_sort_values :: "(coord_row list \<Rightarrow> coord_row list) \<Rightarrow> bool" where
  "is_sort_values sort_values \<longleftrightarrow>
     (\<forall>df. mset (sort_values df) = mset df \<and> sorted (map PDB_File (sort_values df)))"



text \<open>
  \<open>results\<close> are the lists returned by \<^verbatim>\<open>process_one_pdb\<close>, in the order in which
  \<^verbatim>\<open>imap_unordered\<close> delivers them. \<open>None\<close>: no table is written.
\<close>

definition docking_center_table ::
  "(coord_row list \<Rightarrow> coord_row list) \<Rightarrow> 's pocket_result list list \<Rightarrow> coord_row list option"
where
  "docking_center_table sort_values results =
     (let all_results = concat results
      in if all_results = [] then None
         else Some (sort_values (map columns all_results)))"

section \<open>The rescoring stage: 51.idock-Rescoring.py and 52.vina-Rescoring.py\<close>

text \<open>
  The two scripts differ in the line of the docking result that carries the primary
  score, in the test applied to a line of the scorer's table, and in the header of the
  combined table.
\<close>

datatype engine = Idock | Vina

text \<open>\<^verbatim>\<open>str(n)\<close> for a natural number.\<close>

fun str_nat :: "nat \<Rightarrow> string" where
  "str_nat n =
     (if n < 10 then [char_of (48 + n)]
      else str_nat (n div 10) @ [char_of (48 + n mod 10)])"

declare str_nat.simps [simp del]

text \<open>
  A line of a combined table: the header, or
  \<^verbatim>\<open>f"MODEL_{idx},{primary},{sfct},{(primary + sfct) * 0.5}"\<close> with its four fields.
\<close>

datatype csv_line = Header string | Row string rat rat rat

definition csv_header :: "engine \<Rightarrow> string" where
  "csv_header eng =
     (case eng of Idock \<Rightarrow> ''MODEL,idock_score,sfct_score,idock_sfct_combined''
      | Vina \<Rightarrow> ''MODEL,vina_score,sfct_score,vina_sfct_combined'')"

text \<open>
  The primary score of one line of the docking result: \<open>Inr None\<close> when the line does
  not carry one, \<open>Inl\<close> when reading it raises.
  idock: \<^verbatim>\<open>float(line.split(':')[-1].strip().replace('KCAL/MOL', ''))\<close>;
  Vina: \<^verbatim>\<open>float(line.split()[3])\<close>.
\<close>

definition primary_line :: "engine \<Rightarrow> (string \<Rightarrow> rat option) \<Rightarrow> string \<Rightarrow> py_error + rat option" where
  "primary_line eng flt line =
     (case eng of
        Idock \<Rightarrow>
          if py_in ''NORMALIZED FREE ENERGY PREDICTED BY IDOCK'' line then
            (case flt (replace ''KCAL/MOL'' [] (strip (last (split_on CHR '':'' line)))) of
               None \<Rightarrow> Inl ValueError | Some score \<Rightarrow> Inr (Some score))
          else Inr None
      | Vina \<Rightarrow>
          if py_in ''REMARK VINA RESULT'' line then
            (if length (split_ws line) \<le> 3 then Inl IndexError
             else (case flt (split_ws line ! 3) of
                     None \<Rightarrow> Inl ValueError | Some score \<Rightarrow> Inr (Some score)))
          else Inr None)"

text \<open>
  The secondary score of one line of the scorer's table.
  idock script: \<^verbatim>\<open>if len(cols) > 4\<close>, Vina script: \<^verbatim>\<open>if len(cols) > 1\<close>, then
  \<^verbatim>\<open>float(cols[4])\<close>, where only \<^verbatim>\<open>ValueError\<close> is caught.
\<close>

definition sfct_line :: "engine \<Rightarrow> (string \<Rightarrow> rat option) \<Rightarrow> string \<Rightarrow> py_error + rat option" where
  "sfct_line eng flt line =
     (let cols = split_ws line
      in if (case eng of Idock \<Rightarrow> 4 | Vina \<Rightarrow> 1) < length cols then
           (if length cols \<le> 4 then Inl IndexError
            else (case flt (cols ! 4) of None \<Rightarrow> Inr None | Some score \<Rightarrow> Inr (Some score)))
         else Inr None)"

text \<open>The loops \<^verbatim>\<open>for line in f\<close> that collect a list of scores.\<close>

fun collect :: "(string \<Rightarrow> py_error + rat option) \<Rightarrow> rat list \<Rightarrow> string list \<Rightarrow> py_error + rat list" where
  "collect score_of scores [] = Inr scores"
| "collect score_of scores (line # rest) =
     (case score_of line of
        Inl e \<Rightarrow> Inl e
      | Inr None \<Rightarrow> collect score_of scores rest
      | Inr (Some score) \<Rightarrow> collect score_of (scores @ [score]) rest)"

definition primary_scores :: "engine \<Rightarrow> (string \<Rightarrow> rat option) \<Rightarrow> string list \<Rightarrow> py_error + rat list" where
  "primary_scores eng flt ligand_lines = collect (primary_line eng flt) [] ligand_lines"

text \<open>
  \<open>dat\<close> is the file at \<open>dat_filename\<close> (\<open>None\<close>: it does not exist);
  \<^verbatim>\<open>next(f)\<close> skips its first line and raises on an empty file.
\<close>

definition sfct_scores :: "engine \<Rightarrow> (string \<Rightarrow> rat option) \<Rightarrow> string list option \<Rightarrow> py_error + rat list" where
  "sfct_scores eng flt dat =
     (case dat of None \<Rightarrow> Inl FileNotFoundError
      | Some [] \<Rightarrow> Inl StopIteration
      | Some (first # rest) \<Rightarrow> collect (sfct_line eng flt) [] rest)"

text \<open>
  \<^verbatim>\<open>for idx, (primary, sfct) in enumerate(zip(primary_scores, sfct_scores), start=1)\<close>
  with the two writes of its body.
\<close>

fun score_rows :: "engine \<Rightarrow> nat \<Rightarrow> (rat \<times> rat) list \<Rightarrow> csv_line list" where
  "score_rows eng idx [] = []"
| "score_rows eng idx ((primary, sfct) # rest) =
     (if idx = 1 then [Header (csv_header eng)] else []) @
     Row (''MODEL_'' @ str_nat idx) primary sfct (binary64 (binary64 (primary + sfct) * (1 / 2))) #
     score_rows eng (Suc idx) rest"

text \<open>What \<^verbatim>\<open>if primary_scores and sfct_scores: ...\<close> appends to the combined table.\<close>

definition combined_rows :: "engine \<Rightarrow> rat list \<Rightarrow> rat list \<Rightarrow> csv_line list" where
  "combined_rows eng primary sfct =
     (if primary \<noteq> [] \<and> sfct \<noteq> [] then score_rows eng 1 (zip primary sfct) else [])"

text \<open>
  The files a rescoring run reads and writes: the scorer's tables and the combined
  tables, by path.
\<close>

record rescoring_files =
  dat_files :: "string \<rightharpoonup> string list"
  csv_files :: "string \<rightharpoonup> csv_line list"

text \<open>
  What a rescoring script works in: the output directory (it ends with a slash), the
  docking results by path, the table the external scorer leaves at \<open>dat_filename\<close> for a
  protein and a docking result (\<open>None\<close>: it leaves none) and \<^verbatim>\<open>float\<close>.
\<close>

record rescoring_env =
  output_folder_sfct :: string
  read_ligand :: "string \<rightharpoonup> string list"
  scorer :: "string \<Rightarrow> string \<Rightarrow> string list option"
  float_of :: "string \<Rightarrow> rat option"

definition dat_filename :: "rescoring_env \<Rightarrow> string \<Rightarrow> string" where
  "dat_filename env ligand_file = output_folder_sfct env @ ligand_name_of ligand_file @ ''.dat''"

definition output_csv :: "rescoring_env \<Rightarrow> string \<Rightarrow> string" where
  "output_csv env ligand_file = output_folder_sfct env @ ligand_name_of ligand_file @ ''.csv''"

text \<open>
  \<^verbatim>\<open>process_protein_ligand\<close>: the exception it raises, if any, and the files afterwards.
  Nothing in the function catches \<^verbatim>\<open>FileNotFoundError\<close>, \<^verbatim>\<open>StopIteration\<close>,
  \<^verbatim>\<open>IndexError\<close> or the \<^verbatim>\<open>ValueError\<close> of a primary score.
\<close>

definition process_protein_ligand ::
  "engine \<Rightarrow> rescoring_env \<Rightarrow> rescoring_files \<Rightarrow> string \<Rightarrow> string \<Rightarrow> (py_error + unit) \<times> rescoring_files"
where
  "process_protein_ligand eng env files protein_file ligand_file =
     (let ran = (case scorer env protein_file ligand_file of
                   None \<Rightarrow> files
                 | Some table \<Rightarrow>
                     files\<lparr>dat_files := (dat_files files)(dat_filename env ligand_file \<mapsto> table)\<rparr>)
      in case read_ligand env ligand_file of
           None \<Rightarrow> (Inl FileNotFoundError, ran)
         | Some ligand_lines \<Rightarrow>
            (case primary_scores eng (float_of env) ligand_lines of
               Inl e \<Rightarrow> (Inl e, ran)
             | Inr primary \<Rightarrow>
                (case sfct_scores eng (float_of env) (dat_files ran (dat_filename env ligand_file)) of
                   Inl e \<Rightarrow> (Inl e, ran)
                 | Inr sfct \<Rightarrow>
                    (if primary \<noteq> [] \<and> sfct \<noteq> [] then
                       (Inr (), ran\<lparr>csv_files := (csv_files ran)(output_csv env ligand_file \<mapsto>
                          (case csv_files ran (output_csv env ligand_file) of
                             None \<Rightarrow> [] | Some old \<Rightarrow> old) @ combined_rows eng primary sfct)\<rparr>)
                     else (Inr (), ran)))))"








section \<open>Facts about the string primitives\<close>

lemma py_in_iff: "py_in sub s \<longleftrightarrow> (\<exists>pre post. s = pre @ sub @ post)"
proof (induction s)
  case Nil
  then show ?case by auto
next
  case (Cons c s)
  have "(\<exists>pre post. c # s = pre @ sub @ post) \<longleftrightarrow>
        prefix sub (c # s) \<or> (\<exists>pre post. s = pre @ sub @ post)"
    using sublist_Cons_right [of sub c s] by (simp add: sublist_def)
  with Cons show ?case by simp
qed

lemma replace_Nil [simp]: "old \<noteq> [] \<Longrightarrow> replace old new [] = []"
  by (simp add: replace.simps)

lemma replace_Cons:
  "old \<noteq> [] \<Longrightarrow> replace old new (c # s) =
     (if prefix old (c # s) then new @ replace old new (drop (length old) (c # s))
      else c # replace old new s)"
  by (subst replace.simps) simp

lemma replace_erase_length: "old \<noteq> [] \<Longrightarrow> length (replace old [] s) \<le> length s"
proof (induction s rule: length_induct)
  case (1 s)
  show ?case
  proof (cases s)
    case Nil
    with 1 show ?thesis by simp
  next
    case (Cons c t)
    show ?thesis
    proof (cases "prefix old s")
      case True
      have "length (drop (length old) s) < length s"
        using Cons "1.prems" by (cases old) auto
      then have "length (replace old [] (drop (length old) s)) \<le> length (drop (length old) s)"
        using 1 by blast
      then show ?thesis
        using True Cons "1.prems" by (simp add: replace_Cons)
    next
      case False
      have "length (replace old [] t) \<le> length t"
        using 1 Cons by simp
      then show ?thesis
        using False Cons "1.prems" by (simp add: replace_Cons)
    qed
  qed
qed

lemma replace_absent: "old \<noteq> [] \<Longrightarrow> \<not> py_in old s \<Longrightarrow> replace old new s = s"
  by (induction s) (auto simp: replace_Cons)

lemma replace_erase_present:
  "old \<noteq> [] \<Longrightarrow> py_in old s \<Longrightarrow> length (replace old [] s) < length s"
proof (induction s)
  case Nil
  then show ?case by simp
next
  case (Cons c s)
  show ?case
  proof (cases "prefix old (c # s)")
    case True
    have "length (replace old [] (drop (length old) (c # s))) \<le> length (drop (length old) (c # s))"
      using Cons.prems(1) by (rule replace_erase_length)
    also have "\<dots> < length (c # s)"
      using Cons.prems(1) by (cases old) auto
    finally show ?thesis
      using True Cons.prems(1) by (simp add: replace_Cons)
  next
    case False
    with Cons show ?thesis by (simp add: replace_Cons)
  qed
qed

lemma replace_erase_fixed_iff:
  "old \<noteq> [] \<Longrightarrow> replace old [] s = s \<longleftrightarrow> \<not> py_in old s"
  using replace_absent [of old s "[]"] replace_erase_present [of old s] by fastforce

lemma replace_erase_set: "old \<noteq> [] \<Longrightarrow> set (replace old [] s) \<subseteq> set s"
proof (induction s rule: length_induct)
  case (1 s)
  show ?case
  proof (cases s)
    case Nil
    with 1 show ?thesis by simp
  next
    case (Cons c t)
    show ?thesis
    proof (cases "prefix old s")
      case True
      have "length (drop (length old) s) < length s"
        using Cons "1.prems" by (cases old) auto
      then have "set (replace old [] (drop (length old) s)) \<subseteq> set (drop (length old) s)"
        using 1 by blast
      moreover have "set (drop (length old) s) \<subseteq> set s"
        by (rule set_drop_subset)
      ultimately show ?thesis
        using True Cons "1.prems" by (simp add: replace_Cons)
    next
      case False
      have "set (replace old [] t) \<subseteq> set t"
        using 1 Cons by simp
      then show ?thesis
        using False Cons "1.prems" by (auto simp: replace_Cons)
    qed
  qed
qed

lemma basename_no_slash: "CHR ''/'' \<notin> set (basename p)"
  unfolding basename_def using set_takeWhileD by fastforce

lemma basename_id: "CHR ''/'' \<notin> set s \<Longrightarrow> basename s = s"
proof -
  assume "CHR ''/'' \<notin> set s"
  then have "takeWhile (\<lambda>c. c \<noteq> CHR ''/'') (rev s) = rev s"
    by (auto simp: takeWhile_eq_all_conv)
  then have "rev (takeWhile (\<lambda>c. c \<noteq> CHR ''/'') (rev s)) = rev (rev s)"
    by (rule arg_cong)
  then show ?thesis unfolding basename_def by (simp only: rev_rev_ident)
qed

lemma protein_name_no_slash: "CHR ''/'' \<notin> set (protein_name_of f)"
proof -
  have "set (protein_name_of f) \<subseteq> set (basename f)"
    unfolding protein_name_of_def
    using replace_erase_set [of "''.pdbqt''" "replace ''out-'' [] (basename f)"]
          replace_erase_set [of "''out-''" "basename f"]
    by auto
  then show ?thesis using basename_no_slash by blast
qed

lemma strip_markers_fixed_iff:
  "replace ''.pdbqt'' [] (replace ''out-'' [] t) = t \<longleftrightarrow>
     \<not> py_in ''out-'' t \<and> \<not> py_in ''.pdbqt'' t"
proof (cases "py_in ''out-'' t")
  case True
  have "length (replace ''.pdbqt'' [] (replace ''out-'' [] t)) \<le> length (replace ''out-'' [] t)"
    by (rule replace_erase_length) simp
  also have "\<dots> < length t"
    using True by (intro replace_erase_present) simp
  finally show ?thesis using True by auto
next
  case False
  then have "replace ''out-'' [] t = t"
    by (intro replace_absent) simp
  then show ?thesis
    using False replace_erase_fixed_iff [of "''.pdbqt''" t] by simp
qed

section \<open>C2: normalising an identity key twice\<close>

text \<open>
  C2 (as stated): identity-key normalisation is idempotent for every string. It is not:
  erasing \<open>out-\<close> from \<open>oout-ut-1abc.pdbqt\<close> glues a new \<open>out-\<close> together, which a
  second normalisation erases as well.
\<close>

theorem C2_normalisation_not_idempotent:
  "protein_name_of ''oout-ut-1abc.pdbqt'' = ''out-1abc'' \<and>
   protein_name_of (protein_name_of ''oout-ut-1abc.pdbqt'') = ''1abc'' \<and>
   protein_name_of (protein_name_of ''oout-ut-1abc.pdbqt'') \<noteq> protein_name_of ''oout-ut-1abc.pdbqt''"
  by (simp add: protein_name_of_def basename_def replace_Cons)

text \<open>
  C2 (amended): normalising a key a second time leaves it unchanged exactly when the key
  contains neither the marker \<open>out-\<close> nor the extension \<open>.pdbqt\<close>.
\<close>

theorem C2_normalisation_idempotent_iff:
  "protein_name_of (protein_name_of f) = protein_name_of f \<longleftrightarrow>
     \<not> py_in ''out-'' (protein_name_of f) \<and> \<not> py_in ''.pdbqt'' (protein_name_of f)"
proof -
  have "basename (protein_name_of f) = protein_name_of f"
    by (rule basename_id) (rule protein_name_no_slash)
  then have "protein_name_of (protein_name_of f) =
             replace ''.pdbqt'' [] (replace ''out-'' [] (protein_name_of f))"
    by (simp add: protein_name_of_def)
  then show ?thesis
    by (simp add: strip_markers_fixed_iff)
qed

theorem C2_normalisation_idempotent_witness:
  "protein_name_of ''/db/out-1abc.pdbqt'' = ''1abc'' \<and>
   protein_name_of (protein_name_of ''/db/out-1abc.pdbqt'') = protein_name_of ''/db/out-1abc.pdbqt''"
proof -
  have k: "protein_name_of ''/db/out-1abc.pdbqt'' = ''1abc''"
    by (simp add: protein_name_of_def basename_def replace_Cons)
  have "\<not> py_in ''out-'' ''1abc'' \<and> \<not> py_in ''.pdbqt'' ''1abc''"
    by simp
  with C2_normalisation_idempotent_iff [of "''/db/out-1abc.pdbqt''"] k show ?thesis
    by simp
qed

section \<open>C1: which prior-stage records a work item is matched with\<close>

lemma idock_fold_cmds:
  "snd (snd (foldl (idock_line env pf) (m, st, cs) ls)) =
     cs @ map (\<lambda>l. idock_command env pf (split_on CHR '','' (strip l)))
            (filter (\<lambda>l. py_in (protein_name_of pf) l \<and>
                          length (split_on CHR '','' (strip l)) = 4) ls)"
  by (induction ls arbitrary: m st cs) (simp_all add: idock_line_def Let_def)

lemma idock_fold_status:
  "st \<in> {''Success'', ''Failed'', ''No Match''} \<Longrightarrow>
   fst (snd (foldl (idock_line env pf) (m, st, cs) ls)) \<in> {''Success'', ''Failed'', ''No Match''}"
  by (induction ls arbitrary: m st cs) (simp_all add: idock_line_def Let_def)

lemma vina_fold_cmds:
  "snd (foldl (vina_line env ligs pf) (m, cs) ls) =
     cs @ concat (map (\<lambda>l. map (vina_command env pf (split_on CHR '','' (strip l))) ligs)
            (filter (\<lambda>l. py_in (protein_name_of pf) l \<and>
                          length (split_on CHR '','' (strip l)) = 4) ls))"
  by (induction ls arbitrary: m cs) (simp_all add: vina_line_def Let_def)

text \<open>
  C1 (as stated): a record is matched only when its key equals the item's key; a centre
  record of a protein whose name merely contains the item's name is not used. The idock
  script run on \<open>out-1abc.pdbqt\<close> with a centre table that has one pocket, of protein
  \<open>1abcd\<close>, docks \<open>1abc\<close> at that pocket's centre and writes the result under that
  pocket's name.
\<close>

theorem C1_longer_name_is_matched:
  "protein_name_of ''db/out-1abc.pdbqt'' = ''1abc'' \<and>
   snd (snd (idock_scan
      \<lparr>lines = [''PDB_File,X,Y,Z\<newline>'', ''pocket_0.9_1abcd,1.5,2.5,3.5\<newline>''],
       ligand_path = ''lig'', output_folder = ''out'',
       run_ok = (\<lambda>c. True), elapsed = (\<lambda>p. ''0.00'')\<rparr> ''db/out-1abc.pdbqt'')) =
   [\<lparr>receptor = ''db/out-1abc.pdbqt'', ligand = ''lig'', center_x = ''1.5'',
      center_y = ''2.5'', center_z = ''3.5'',
      out_file = ''out/pocket_0.9_1abcd.pdbqt'', log_file = None\<rparr>]"
  by code_simp

text \<open>
  C1 (amended): a work item is matched with a prior-stage record exactly when the item's
  normalised key occurs somewhere inside the record's text: inside the line of the centre
  table for both docking scripts (which then dock once per such line that has four
  comma-separated fields, in the order of the table), inside the base name of the docking
  result for the rescoring scripts.
\<close>

theorem C1_match_is_containment:
  "snd (snd (idock_scan env pf)) =
     map (\<lambda>l. idock_command env pf (split_on CHR '','' (strip l)))
       (filter (\<lambda>l. (\<exists>pre post. l = pre @ protein_name_of pf @ post) \<and>
                     length (split_on CHR '','' (strip l)) = 4) (lines env)) \<and>
   snd (vina_scan env ligs pf) =
     concat (map (\<lambda>l. map (vina_command env pf (split_on CHR '','' (strip l))) ligs)
       (filter (\<lambda>l. (\<exists>pre post. l = pre @ protein_name_of pf @ post) \<and>
                     length (split_on CHR '','' (strip l)) = 4) (lines env))) \<and>
   matched_ligands ligs pf =
     filter (\<lambda>lf. \<exists>pre post. basename lf = pre @ protein_name_of pf @ post) ligs"
  by (simp add: idock_scan_def vina_scan_def matched_ligands_def idock_fold_cmds
        vina_fold_cmds py_in_iff)

section \<open>C8: the docking log\<close>

lemma idock_log_fold:
  "foldl (\<lambda>log_lines pf. snd (idock_process_protein_file env log_lines pf)) before pfs =
     before @ map (\<lambda>pf. log_row (protein_name_of pf) (elapsed env pf)
                         (fst (snd (idock_scan env pf)))) pfs"
  by (induction pfs arbitrary: before)
     (simp_all add: idock_process_protein_file_def split: prod.splits)

lemma vina_log_fold:
  "ligs \<noteq> [] \<Longrightarrow>
   foldl (\<lambda>log_lines pf. snd (vina_process_protein_file env ligs log_lines pf)) before pfs =
     before @ map (\<lambda>pf. log_row (protein_name_of pf) (elapsed env pf)
        (if fst (vina_scan env ligs pf) then ''Success''
         else ''No Matching Center Coordinates'')) pfs"
  by (induction pfs arbitrary: before)
     (simp_all add: vina_process_protein_file_def split: prod.splits)

text \<open>
  C8 (as stated): with either engine the log begins with the header and every status is
  Success, Failed or No Match. A Vina run into a fresh directory, with one ligand and two
  proteins of which only the first has a centre, leaves a log of two rows: there is no
  header, and the second status is none of the three.
\<close>

theorem C8_vina_log_differs:
  "vina_log
      \<lparr>lines = [''PDB_File,X,Y,Z\<newline>'', ''pocket_0.9_1abc,1.5,2.5,3.5\<newline>''],
       ligand_path = ''lig'', output_folder = ''out'',
       run_ok = (\<lambda>c. True), elapsed = (\<lambda>p. ''0.00'')\<rparr>
      [''lig/l1.pdbqt''] [] [''db/out-1abc.pdbqt'', ''db/out-2xyz.pdbqt'']
     = [''1abc,0.00,Success'', ''2xyz,0.00,No Matching Center Coordinates'']"
  by code_simp

text \<open>
  C8 (amended): an idock run leaves a log made of the header line followed by exactly one
  row per protein file, in processing order, each with a status among Success, Failed and
  No Match. A Vina run that has at least one ligand file appends exactly one row per
  protein file to what the log already held, each with the status Success or
  No Matching Center Coordinates.
\<close>

theorem C8_docking_log_rows:
  "idock_log env pfs =
     log_header # map (\<lambda>pf. log_row (protein_name_of pf) (elapsed env pf)
                              (fst (snd (idock_scan env pf)))) pfs \<and>
   fst (snd (idock_scan env pf)) \<in> {''Success'', ''Failed'', ''No Match''} \<and>
   (ligs \<noteq> [] \<longrightarrow>
      vina_log env ligs old_log pfs =
        old_log @ map (\<lambda>pf. log_row (protein_name_of pf) (elapsed env pf)
           (if fst (vina_scan env ligs pf) then ''Success''
            else ''No Matching Center Coordinates'')) pfs)"
proof -
  have "fst (snd (idock_scan env pf)) \<in> {''Success'', ''Failed'', ''No Match''}"
    unfolding idock_scan_def by (rule idock_fold_status) simp
  then show ?thesis
    by (simp add: idock_log_def vina_log_def idock_log_fold vina_log_fold)
qed

theorem C8_docking_log_rows_witness:
  "[''lig/l1.pdbqt''] \<noteq> [] \<and>
   idock_log
      \<lparr>lines = [''PDB_File,X,Y,Z\<newline>'', ''pocket_0.9_1abc,1.5,2.5,3.5\<newline>''],
       ligand_path = ''lig'', output_folder = ''out'',
       run_ok = (\<lambda>c. receptor c \<noteq> ''db/out-1abc.pdbqt''), elapsed = (\<lambda>p. ''0.00'')\<rparr>
      [''db/out-1abc.pdbqt'', ''db/out-2xyz.pdbqt'']
     = [''Protein Name,Time (s),Status'', ''1abc,0.00,Failed'', ''2xyz,0.00,No Match''] \<and>
   vina_log
      \<lparr>lines = [''PDB_File,X,Y,Z\<newline>'', ''pocket_0.9_1abc,1.5,2.5,3.5\<newline>''],
       ligand_path = ''lig'', output_folder = ''out'',
       run_ok = (\<lambda>c. receptor c \<noteq> ''db/out-1abc.pdbqt''), elapsed = (\<lambda>p. ''0.00'')\<rparr>
      [''lig/l1.pdbqt''] [''Protein Name,Time (s),Status'']
      [''db/out-1abc.pdbqt'', ''db/out-2xyz.pdbqt'']
     = [''Protein Name,Time (s),Status'', ''1abc,0.00,Success'',
        ''2xyz,0.00,No Matching Center Coordinates'']"
proof -
  let ?env = "\<lparr>lines = [''PDB_File,X,Y,Z\<newline>'', ''pocket_0.9_1abc,1.5,2.5,3.5\<newline>''],
       ligand_path = ''lig'', output_folder = ''out'',
       run_ok = (\<lambda>c. receptor c \<noteq> ''db/out-1abc.pdbqt''), elapsed = (\<lambda>p. ''0.00'')\<rparr>"
  let ?pfs = "[''db/out-1abc.pdbqt'', ''db/out-2xyz.pdbqt'']"
  have ne: "[''lig/l1.pdbqt''] \<noteq> []" by simp
  note inst = C8_docking_log_rows [of ?env ?pfs "''db/out-1abc.pdbqt''" "[''lig/l1.pdbqt'']"
      "[''Protein Name,Time (s),Status'']"]
  have i: "idock_log ?env ?pfs =
     log_header # map (\<lambda>pf. log_row (protein_name_of pf) (elapsed ?env pf)
                              (fst (snd (idock_scan ?env pf)))) ?pfs"
    using inst by (rule conjunct1)
  have v: "vina_log ?env [''lig/l1.pdbqt''] [''Protein Name,Time (s),Status''] ?pfs =
        [''Protein Name,Time (s),Status''] @ map (\<lambda>pf. log_row (protein_name_of pf) (elapsed ?env pf)
           (if fst (vina_scan ?env [''lig/l1.pdbqt''] pf) then ''Success''
            else ''No Matching Center Coordinates'')) ?pfs"
    using inst ne by blast
  have ri: "log_header # map (\<lambda>pf. log_row (protein_name_of pf) (elapsed ?env pf)
                              (fst (snd (idock_scan ?env pf)))) ?pfs =
     [''Protein Name,Time (s),Status'', ''1abc,0.00,Failed'', ''2xyz,0.00,No Match'']"
    by code_simp
  have rv: "[''Protein Name,Time (s),Status''] @ map (\<lambda>pf. log_row (protein_name_of pf) (elapsed ?env pf)
           (if fst (vina_scan ?env [''lig/l1.pdbqt''] pf) then ''Success''
            else ''No Matching Center Coordinates'')) ?pfs =
     [''Protein Name,Time (s),Status'', ''1abc,0.00,Success'',
        ''2xyz,0.00,No Matching Center Coordinates'']"
    by code_simp
  show ?thesis
    using ne i v ri rv by (simp only: simp_thms)
qed

section \<open>Facts about float arithmetic\<close>

lemma round_half_even_bounds:
  "\<bar>of_int (round_half_even y) - y\<bar> \<le> 1 / 2"
  unfolding round_half_even_def Let_def
  by (auto simp: abs_if) linarith+

lemma ilog2_lower:
  assumes "x \<noteq> 0"
  shows "2 powi (ilog2 x) \<le> \<bar>x\<bar>"
proof -
  obtain p q where pq: "quotient_of \<bar>x\<bar> = (p, q)"
    by (cases "quotient_of \<bar>x\<bar>")
  have q: "0 < q" using pq by (rule quotient_of_denom_pos)
  have x: "\<bar>x\<bar> = of_int p / of_int q" using pq by (rule quotient_of_div)
  have "0 < \<bar>x\<bar>" using assms by simp
  then have p: "0 < p"
    using q unfolding x by (simp add: zero_less_divide_iff)
  let ?e = "bitlen p - bitlen q"
  have bp: "2 ^ nat (bitlen p - 1) \<le> p" and bq: "q < 2 ^ nat (bitlen q)"
    using bitlen_bounds [OF p] bitlen_bounds [OF q] by simp_all
  have bq0: "0 \<le> bitlen q"
    by (rule bitlen_nonneg)
  have bp1: "1 \<le> bitlen p"
  proof (rule ccontr)
    assume "\<not> 1 \<le> bitlen p"
    then have "nat (bitlen p) = 0" by simp
    with bitlen_bounds [OF p] have "p < 1" by simp
    with p show False by simp
  qed
  have "(2::rat) powi (?e - 1) * of_int q \<le> 2 powi (?e - 1) * 2 ^ nat (bitlen q)"
  proof -
    have "(of_int q :: rat) \<le> of_int (2 ^ nat (bitlen q))"
      using bq by (simp only: of_int_le_iff less_imp_le)
    then show ?thesis by (simp add: mult_left_mono)
  qed
  also have "\<dots> = 2 powi (?e - 1) * 2 powi (bitlen q)"
    using bq0 by (simp add: power_int_def)
  also have "\<dots> = 2 powi (bitlen p - 1)"
    by (simp add: power_int_add [symmetric])
  also have "\<dots> = 2 ^ nat (bitlen p - 1)"
    using bp1 by (simp add: power_int_def)
  also have "\<dots> \<le> of_int p"
  proof -
    have "(of_int (2 ^ nat (bitlen p - 1)) :: rat) \<le> of_int p"
      using bp by (simp only: of_int_le_iff)
    then show ?thesis by simp
  qed
  finally have "(2::rat) powi (?e - 1) \<le> of_int p / of_int q"
    using q by (simp add: pos_le_divide_eq)
  then have low: "(2::rat) powi (?e - 1) \<le> \<bar>x\<bar>"
    by (simp only: x)
  have "ilog2 x = (if 2 powi ?e \<le> \<bar>x\<bar> then ?e else ?e - 1)"
    by (simp add: ilog2_def pq Let_def)
  with low show ?thesis
    by (cases "2 powi ?e \<le> \<bar>x\<bar>") simp_all
qed

lemma binary64_error: "\<bar>binary64 x - x\<bar> \<le> \<bar>x\<bar> / 2 ^ 53"
proof (cases "x = 0")
  case True
  then show ?thesis by (simp add: binary64_def)
next
  case False
  let ?ulp = "(2::rat) powi (ilog2 x - 52)"
  have pos: "0 < ?ulp" by simp
  have "\<bar>of_int (round_half_even (x / ?ulp)) - x / ?ulp\<bar> \<le> 1 / 2"
    by (rule round_half_even_bounds)
  then have "\<bar>of_int (round_half_even (x / ?ulp)) - x / ?ulp\<bar> * ?ulp \<le> 1 / 2 * ?ulp"
    using pos by (intro mult_right_mono) simp_all
  moreover have "\<bar>of_int (round_half_even (x / ?ulp)) - x / ?ulp\<bar> * ?ulp =
      \<bar>of_int (round_half_even (x / ?ulp)) * ?ulp - x\<bar>"
  proof -
    have "\<bar>of_int (round_half_even (x / ?ulp)) - x / ?ulp\<bar> * ?ulp =
          \<bar>(of_int (round_half_even (x / ?ulp)) - x / ?ulp) * ?ulp\<bar>"
      using pos by (simp add: abs_mult)
    also have "(of_int (round_half_even (x / ?ulp)) - x / ?ulp) * ?ulp =
          of_int (round_half_even (x / ?ulp)) * ?ulp - x"
      using pos by (simp add: left_diff_distrib)
    finally show ?thesis .
  qed
  moreover have "1 / 2 * ?ulp = 2 powi (ilog2 x) / 2 ^ 53"
  proof -
    have "?ulp = 2 powi (ilog2 x) / 2 powi 52"
      by (simp add: power_int_diff)
    then show ?thesis by simp
  qed
  moreover have "2 powi (ilog2 x) / 2 ^ 53 \<le> \<bar>x\<bar> / 2 ^ 53"
    using ilog2_lower [OF False] by (simp add: divide_right_mono)
  ultimately show ?thesis
    using False by (simp add: binary64_def Let_def)
qed

lemma float_add_error:
  "\<bar>binary64 (s + x) - (t + x)\<bar> \<le> (1 + 1 / 2 ^ 53) * \<bar>s - t\<bar> + \<bar>t + x\<bar> / 2 ^ 53"
proof -
  have "\<bar>s + x\<bar> \<le> \<bar>t + x\<bar> + \<bar>s - t\<bar>"
    by simp
  then have "\<bar>s + x\<bar> / 2 ^ 53 \<le> (\<bar>t + x\<bar> + \<bar>s - t\<bar>) / 2 ^ 53"
    by (simp add: divide_right_mono)
  with binary64_error [of "s + x"]
  have "\<bar>binary64 (s + x) - (s + x)\<bar> \<le> (\<bar>t + x\<bar> + \<bar>s - t\<bar>) / 2 ^ 53"
    by (rule order_trans)
  moreover have "\<bar>binary64 (s + x) - (t + x)\<bar> \<le> \<bar>binary64 (s + x) - (s + x)\<bar> + \<bar>s - t\<bar>"
    by simp
  ultimately show ?thesis
    by (simp add: field_simps)
qed

lemma foldl_float_add_error:
  "\<bar>foldl (\<lambda>s x. binary64 (s + x)) s xs - (t + sum_list xs)\<bar> \<le>
     (1 + 1 / 2 ^ 53) ^ length xs * \<bar>s - t\<bar> +
     ((1 + 1 / 2 ^ 53) ^ length xs - 1) * (\<bar>t\<bar> + sum_list (map abs xs))"
proof (induction xs arbitrary: s t)
  case Nil
  then show ?case by simp
next
  case (Cons x r)
  define u :: rat where "u = 1 / 2 ^ 53"
  define w where "w = (1 + u) ^ length r"
  define B where "B = \<bar>t\<bar> + \<bar>x\<bar> + sum_list (map abs r)"
  have u0: "0 \<le> u" by (simp add: u_def)
  have w1: "1 \<le> w" unfolding w_def using u0 by (intro one_le_power) simp
  have r0: "0 \<le> sum_list (map abs r)"
    by (rule sum_list_nonneg) auto
  have t': "\<bar>t + x\<bar> \<le> B" unfolding B_def using r0 by simp
  have t'': "\<bar>t + x\<bar> + sum_list (map abs r) \<le> B" unfolding B_def by simp
  have st: "\<bar>binary64 (s + x) - (t + x)\<bar> \<le> (1 + u) * \<bar>s - t\<bar> + u * B"
  proof -
    have "\<bar>binary64 (s + x) - (t + x)\<bar> \<le> (1 + u) * \<bar>s - t\<bar> + u * \<bar>t + x\<bar>"
      using float_add_error [of s x t] by (simp add: u_def)
    moreover have "u * \<bar>t + x\<bar> \<le> u * B"
      using t' u0 by (rule mult_left_mono)
    ultimately show ?thesis by simp
  qed
  have "\<bar>foldl (\<lambda>s x. binary64 (s + x)) (binary64 (s + x)) r - (t + x + sum_list r)\<bar> \<le>
        w * \<bar>binary64 (s + x) - (t + x)\<bar> + (w - 1) * (\<bar>t + x\<bar> + sum_list (map abs r))"
    using Cons.IH [of "binary64 (s + x)" "t + x"] by (simp add: w_def u_def)
  also have "\<dots> \<le> w * ((1 + u) * \<bar>s - t\<bar> + u * B) + (w - 1) * B"
  proof -
    have "w * \<bar>binary64 (s + x) - (t + x)\<bar> \<le> w * ((1 + u) * \<bar>s - t\<bar> + u * B)"
      using st w1 by (intro mult_left_mono) simp_all
    moreover have "(w - 1) * (\<bar>t + x\<bar> + sum_list (map abs r)) \<le> (w - 1) * B"
      using t'' w1 by (intro mult_left_mono) simp_all
    ultimately show ?thesis by simp
  qed
  also have "\<dots> = (w * (1 + u)) * \<bar>s - t\<bar> + (w * (1 + u) - 1) * B"
    by (simp add: algebra_simps)
  finally show ?case
    by (simp add: w_def u_def B_def algebra_simps)
qed

lemma float_sum_error:
  "\<bar>float_sum xs - sum_list xs\<bar> \<le>
     ((1 + 1 / 2 ^ 53) ^ length xs - 1) * sum_list (map abs xs)"
  using foldl_float_add_error [of 0 xs 0] by (simp add: float_sum_def)

lemma float_mean_error:
  assumes "xs \<noteq> []"
  shows "\<bar>float_mean xs - mean xs\<bar> \<le>
     ((1 + 1 / 2 ^ 53) ^ (length xs + 1) - 1) * mean (map abs xs)"
proof -
  define u :: rat where "u = 1 / 2 ^ 53"
  define w where "w = (1 + u) ^ length xs"
  define A where "A = sum_list (map abs xs)"
  define n :: rat where "n = of_nat (length xs)"
  have n: "0 < n" using assms by (simp add: n_def)
  have u0: "0 \<le> u" by (simp add: u_def)
  have w1: "1 \<le> w" unfolding w_def using u0 by (intro one_le_power) simp
  have A0: "0 \<le> A" unfolding A_def by (rule sum_list_nonneg) auto
  have S: "\<bar>sum_list xs\<bar> \<le> A" unfolding A_def by (rule sum_list_abs)
  have E: "\<bar>float_sum xs - sum_list xs\<bar> \<le> (w - 1) * A"
    using float_sum_error [of xs] by (simp add: w_def u_def A_def)
  have "\<bar>float_sum xs\<bar> \<le> \<bar>sum_list xs\<bar> + \<bar>float_sum xs - sum_list xs\<bar>"
    by simp
  with S E have fs: "\<bar>float_sum xs\<bar> \<le> w * A"
    by (simp add: algebra_simps)
  have "\<bar>float_mean xs - float_sum xs / n\<bar> \<le> u * \<bar>float_sum xs / n\<bar>"
    using binary64_error [of "float_sum xs / n"] by (simp add: float_mean_def n_def u_def)
  also have "\<dots> = u * \<bar>float_sum xs\<bar> / n"
    using n by simp
  also have "\<dots> \<le> u * (w * A) / n"
    using fs u0 n by (intro divide_right_mono mult_left_mono) simp_all
  finally have q: "\<bar>float_mean xs - float_sum xs / n\<bar> \<le> u * (w * A) / n" .
  have "\<bar>float_sum xs / n - sum_list xs / n\<bar> = \<bar>float_sum xs - sum_list xs\<bar> / n"
    using n by (simp add: diff_divide_distrib [symmetric])
  also have "\<dots> \<le> (w - 1) * A / n"
    using E n by (intro divide_right_mono) simp_all
  finally have d: "\<bar>float_sum xs / n - sum_list xs / n\<bar> \<le> (w - 1) * A / n" .
  have "\<bar>float_mean xs - sum_list xs / n\<bar> \<le>
        \<bar>float_mean xs - float_sum xs / n\<bar> + \<bar>float_sum xs / n - sum_list xs / n\<bar>"
    by simp
  with q d have "\<bar>float_mean xs - sum_list xs / n\<bar> \<le> u * (w * A) / n + (w - 1) * A / n"
    by simp
  also have "\<dots> = (w * (1 + u) - 1) * (A / n)"
    using n by (simp add: add_divide_distrib [symmetric] algebra_simps)
  finally have "\<bar>float_mean xs - sum_list xs / n\<bar> \<le> (w * (1 + u) - 1) * (A / n)" .
  moreover have "w * (1 + u) = (1 + 1 / 2 ^ 53) ^ (length xs + 1)"
    by (simp only: w_def u_def power_add power_one_right)
  moreover have "A / n = mean (map abs xs)"
    by (simp only: mean_def A_def n_def length_map)
  moreover have "sum_list xs / n = mean xs"
    by (simp only: mean_def n_def)
  ultimately show ?thesis
    by (simp only:)
qed

lemma round3_close:
  "\<bar>of_int (round_half_even (q * 1000)) / 1000 - q\<bar> \<le> 1 / 2000"
proof -
  have "\<bar>of_int (round_half_even (q * 1000)) - q * 1000\<bar> \<le> 1 / 2"
    by (rule round_half_even_bounds)
  then show ?thesis
    by (simp add: abs_if field_simps split: if_splits)
qed

lemma centre_near_mean:
  assumes "xs \<noteq> []"
  shows "\<bar>of_int (round_half_even (float_mean xs * 1000)) / 1000 - mean xs\<bar> \<le>
     1 / 2000 + ((1 + 1 / 2 ^ 53) ^ (length xs + 1) - 1) * mean (map abs xs)"
proof -
  have "\<bar>of_int (round_half_even (float_mean xs * 1000)) / 1000 - mean xs\<bar> \<le>
        \<bar>of_int (round_half_even (float_mean xs * 1000)) / 1000 - float_mean xs\<bar> +
        \<bar>float_mean xs - mean xs\<bar>"
    by simp
  with round3_close [of "float_mean xs"] float_mean_error [OF assms] show ?thesis
    by linarith
qed

section \<open>C7 and C10: the centre of a pocket\<close>


lemma atom_lines_sums:
  assumes "\<forall>l\<in>set ls. prefix ''ATOM'' l \<longrightarrow>
             flt (field 30 38 l) \<noteq> None \<and> flt (field 38 46 l) \<noteq> None \<and> flt (field 46 54 l) \<noteq> None"
  shows "atom_lines flt (sx, sy, sz, n) ls =
           Some (foldl (\<lambda>s x. binary64 (s + x)) sx (atom_coords flt 30 38 ls),
                 foldl (\<lambda>s x. binary64 (s + x)) sy (atom_coords flt 38 46 ls),
                 foldl (\<lambda>s x. binary64 (s + x)) sz (atom_coords flt 46 54 ls),
                 n + length (filter (prefix ''ATOM'') ls))"
  using assms
proof (induction ls arbitrary: sx sy sz n)
  case Nil
  then show ?case by (simp add: atom_coords_def List.map_filter_simps)
next
  case (Cons l ls)
  then show ?case
    by (auto simp: atom_line_def atom_coords_def List.map_filter_simps)
qed

lemma atom_coords_length:
  assumes "\<forall>l\<in>set ls. prefix ''ATOM'' l \<longrightarrow> flt (field i j l) \<noteq> None"
  shows "length (atom_coords flt i j ls) = length (filter (prefix ''ATOM'') ls)"
  using assms by (induction ls) (auto simp: atom_coords_def List.map_filter_simps)

lemma centre_of_known:
  assumes known: "\<forall>l\<in>set file_lines. prefix ''ATOM'' l \<longrightarrow>
             flt (field 30 38 l) \<noteq> None \<and> flt (field 38 46 l) \<noteq> None \<and>
             flt (field 46 54 l) \<noteq> None"
      and some: "\<exists>l\<in>set file_lines. prefix ''ATOM'' l"
  shows "calculate_average_coordinates flt (Some file_lines) =
           Some (py_round (float_mean (atom_coords flt 30 38 file_lines)) 3,
                 py_round (float_mean (atom_coords flt 38 46 file_lines)) 3,
                 py_round (float_mean (atom_coords flt 46 54 file_lines)) 3)"
    and "atom_coords flt 30 38 file_lines \<noteq> []"
    and "atom_coords flt 38 46 file_lines \<noteq> []"
    and "atom_coords flt 46 54 file_lines \<noteq> []"
proof -
  let ?n = "length (filter (prefix ''ATOM'') file_lines)"
  have n: "?n \<noteq> 0"
    using some by (simp add: filter_empty_conv)
  have lx: "length (atom_coords flt 30 38 file_lines) = ?n"
    using known by (intro atom_coords_length) blast
  have ly: "length (atom_coords flt 38 46 file_lines) = ?n"
    using known by (intro atom_coords_length) blast
  have lz: "length (atom_coords flt 46 54 file_lines) = ?n"
    using known by (intro atom_coords_length) blast
  have "atom_lines flt (0, 0, 0, 0) file_lines =
          Some (float_sum (atom_coords flt 30 38 file_lines),
                float_sum (atom_coords flt 38 46 file_lines),
                float_sum (atom_coords flt 46 54 file_lines), ?n)"
    using atom_lines_sums [OF known, of 0 0 0 0] by (simp add: float_sum_def)
  then show "calculate_average_coordinates flt (Some file_lines) =
           Some (py_round (float_mean (atom_coords flt 30 38 file_lines)) 3,
                 py_round (float_mean (atom_coords flt 38 46 file_lines)) 3,
                 py_round (float_mean (atom_coords flt 46 54 file_lines)) 3)"
    using n by (simp add: calculate_average_coordinates_def float_mean_def lx ly lz)
  show "atom_coords flt 30 38 file_lines \<noteq> []" using lx n by auto
  show "atom_coords flt 38 46 file_lines \<noteq> []" using ly n by auto
  show "atom_coords flt 46 54 file_lines \<noteq> []" using lz n by auto
qed

lemma table_has_columns:
  assumes "is_sort_values srt" and "r \<in> set (concat results)"
  shows "\<exists>t. docking_center_table srt results = Some t \<and> columns r \<in> set t"
proof -
  have ne: "concat results \<noteq> []"
  proof
    assume "concat results = []"
    with assms(2) show False by simp
  qed
  have "mset (srt (map columns (concat results))) = mset (map columns (concat results))"
    using assms(1) by (simp add: is_sort_values_def)
  then have "set (srt (map columns (concat results))) = set (map columns (concat results))"
    by (rule mset_eq_setD)
  then have "columns r \<in> set (srt (map columns (concat results)))"
    using assms(2) by auto
  then show ?thesis
    using ne by (simp add: docking_center_table_def Let_def)
qed

lemma pocket_round_written:
  assumes "pocket_round env pdb output_dir obj score = Inr (Some r)"
  shows "\<exists>residue_dict written.
           residue_items (py_int env) Map.empty (split_ws (strip obj)) = Some residue_dict \<and>
           save_pocket2pdb env pdb residue_dict (save_path env pdb output_dir score) = Some written \<and>
           calculate_average_coordinates (py_float env) (Some written) = Some (X r, Y r, Z r) \<and>
           PDB_File r = splitext_root (save_name env pdb score) \<and> Score r = score"
  using assms by (auto simp: pocket_round_def split: option.splits)

lemma pocket_rounds_rows:
  "r \<in> set (pocket_rounds env pdb output_dir acc ps) \<Longrightarrow>
     r \<in> set acc \<or> (\<exists>obj score. (obj, score) \<in> set ps \<and>
                        pocket_round env pdb output_dir obj score = Inr (Some r))"
proof (induction ps arbitrary: acc)
  case Nil
  then show ?case by simp
next
  case (Cons p ps)
  obtain obj s where p: "p = (obj, s)" by (cases p)
  show ?case
  proof (cases "pocket_round env pdb output_dir obj s")
    case (Inl e)
    then show ?thesis using Cons.prems by (simp add: p)
  next
    case (Inr ro)
    show ?thesis
    proof (cases ro)
      case None
      then have "r \<in> set (pocket_rounds env pdb output_dir acc ps)"
        using Cons.prems Inr by (simp add: p)
      from Cons.IH [OF this] show ?thesis
        by (auto simp: p)
    next
      case (Some r')
      then have "r \<in> set (pocket_rounds env pdb output_dir (acc @ [r']) ps)"
        using Cons.prems Inr by (simp add: p)
      from Cons.IH [OF this] show ?thesis
        using Inr Some by (auto simp: p)
    qed
  qed
qed

lemma process_one_pdb_rows:
  assumes "r \<in> set (process_one_pdb env (pdb, output_dir))"
  shows "\<exists>obj score residue_dict written.
           residue_items (py_int env) Map.empty (split_ws (strip obj)) = Some residue_dict \<and>
           save_pocket2pdb env pdb residue_dict (save_path env pdb output_dir score) = Some written \<and>
           calculate_average_coordinates (py_float env) (Some written) = Some (X r, Y r, Z r) \<and>
           PDB_File r = splitext_root (save_name env pdb score) \<and> Score r = score"
proof -
  obtain objs scores where e: "extract_predicted_pocket env pdb = (objs, scores)"
    by (cases "extract_predicted_pocket env pdb")
  have "r \<in> set (pocket_rounds env pdb output_dir [] (zip objs scores))"
    using assms by (simp add: process_one_pdb_def e)
  from pocket_rounds_rows [OF this] obtain obj score where
    "pocket_round env pdb output_dir obj score = Inr (Some r)"
    by auto
  from pocket_round_written [OF this] show ?thesis
    by blast
qed

text \<open>
  C7 (as stated): the reported centre is the arithmetic mean rounded to three decimals. A
  pocket file with two atoms at (1.001, 0.000, -0.001) and (2.002, 0.005, 0.000) has the
  mean (1.5015, 0.0025, -0.0005), every coordinate of which lies half way between two
  numbers of three decimals. The reported centre is the floats nearest to 1.501, 0.003
  and -0.001: the first goes down and the second up, while rounding the mean as
  \<^verbatim>\<open>round\<close> rounds gives 1.502, 0.002 and 0.
\<close>

theorem C7_ties_of_the_mean:
  "atom_coords dec_value 30 38
     [''ATOM      1  CA  ALA A   1       1.001   0.000  -0.001  1.00  0.00           C'',
      ''ATOM      2  CA  ALA A   2       2.002   0.005   0.000  1.00  0.00           C''] =
     [1001 / 1000, 2002 / 1000] \<and>
   atom_coords dec_value 38 46
     [''ATOM      1  CA  ALA A   1       1.001   0.000  -0.001  1.00  0.00           C'',
      ''ATOM      2  CA  ALA A   2       2.002   0.005   0.000  1.00  0.00           C''] =
     [0, 5 / 1000] \<and>
   atom_coords dec_value 46 54
     [''ATOM      1  CA  ALA A   1       1.001   0.000  -0.001  1.00  0.00           C'',
      ''ATOM      2  CA  ALA A   2       2.002   0.005   0.000  1.00  0.00           C''] =
     [- (1 / 1000), 0] \<and>
   round_half_even (mean [1001 / 1000, 2002 / 1000] * 1000) = 1502 \<and>
   round_half_even (mean [0, 5 / 1000] * 1000) = 2 \<and>
   round_half_even (mean [- (1 / 1000), 0] * 1000) = 0 \<and>
   calculate_average_coordinates dec_float (Some
     [''ATOM      1  CA  ALA A   1       1.001   0.000  -0.001  1.00  0.00           C'',
      ''ATOM      2  CA  ALA A   2       2.002   0.005   0.000  1.00  0.00           C'']) =
     Some (binary64 (1501 / 1000), binary64 (3 / 1000), binary64 (- (1 / 1000)))"
  by code_simp

text \<open>
  C7 (amended): for every pocket file whose ATOM records have readable coordinates, and
  at least one such record, the reported centre is \<^verbatim>\<open>round(s / n, 3)\<close> in float
  arithmetic, \<open>s\<close> being the float sum of the \<open>n\<close> coordinates. In each dimension it is
  the float nearest to a number of three decimals, and that number differs from the
  arithmetic mean of the coordinates by at most 0.0005 plus the rounding error of the sum
  and the quotient, which is at most \<open>(1 + 2\<^sup>-\<^sup>5\<^sup>3)\<^sup>n\<^sup>+\<^sup>1 - 1\<close> times the mean magnitude of the
  coordinates. The row that \<^verbatim>\<open>process_one_pdb\<close> adds for the pocket carries this centre
  as X, Y and Z; every row that \<^verbatim>\<open>process_one_pdb\<close> returns carries the centre computed
  from the pocket file written for it; and the table has every returned row with its
  values.
\<close>

theorem C7_centre_near_mean:
  assumes known: "\<forall>l\<in>set file_lines. prefix ''ATOM'' l \<longrightarrow>
             flt (field 30 38 l) \<noteq> None \<and> flt (field 38 46 l) \<noteq> None \<and>
             flt (field 46 54 l) \<noteq> None"
      and some: "\<exists>l\<in>set file_lines. prefix ''ATOM'' l"
  shows "calculate_average_coordinates flt (Some file_lines) =
           Some (py_round (float_mean (atom_coords flt 30 38 file_lines)) 3,
                 py_round (float_mean (atom_coords flt 38 46 file_lines)) 3,
                 py_round (float_mean (atom_coords flt 46 54 file_lines)) 3) \<and>
         py_round (float_mean xs) 3 =
           binary64 (of_int (round_half_even (float_mean xs * 1000)) / 1000) \<and>
         \<bar>of_int (round_half_even (float_mean (atom_coords flt 30 38 file_lines) * 1000)) / 1000
            - mean (atom_coords flt 30 38 file_lines)\<bar> \<le>
           1 / 2000 + ((1 + 1 / 2 ^ 53) ^ (length (atom_coords flt 30 38 file_lines) + 1) - 1) *
                        mean (map abs (atom_coords flt 30 38 file_lines)) \<and>
         \<bar>of_int (round_half_even (float_mean (atom_coords flt 38 46 file_lines) * 1000)) / 1000
            - mean (atom_coords flt 38 46 file_lines)\<bar> \<le>
           1 / 2000 + ((1 + 1 / 2 ^ 53) ^ (length (atom_coords flt 38 46 file_lines) + 1) - 1) *
                        mean (map abs (atom_coords flt 38 46 file_lines)) \<and>
         \<bar>of_int (round_half_even (float_mean (atom_coords flt 46 54 file_lines) * 1000)) / 1000
            - mean (atom_coords flt 46 54 file_lines)\<bar> \<le>
           1 / 2000 + ((1 + 1 / 2 ^ 53) ^ (length (atom_coords flt 46 54 file_lines) + 1) - 1) *
                        mean (map abs (atom_coords flt 46 54 file_lines)) \<and>
         (py_float env = flt \<and>
          residue_items (py_int env) Map.empty (split_ws (strip obj)) = Some residue_dict \<and>
          save_pocket2pdb env pdb residue_dict (save_path env pdb output_dir score) = Some file_lines \<longrightarrow>
            pocket_round env pdb output_dir obj score =
              Inr (Some \<lparr>PDB_File = splitext_root (save_name env pdb score),
                         X = py_round (float_mean (atom_coords flt 30 38 file_lines)) 3,
                         Y = py_round (float_mean (atom_coords flt 38 46 file_lines)) 3,
                         Z = py_round (float_mean (atom_coords flt 46 54 file_lines)) 3,
                         Score = score\<rparr>)) \<and>
         (row \<in> set (process_one_pdb env (pdb, output_dir)) \<longrightarrow>
            (\<exists>ob sc d written.
               residue_items (py_int env) Map.empty (split_ws (strip ob)) = Some d \<and>
               save_pocket2pdb env pdb d (save_path env pdb output_dir sc) = Some written \<and>
               calculate_average_coordinates (py_float env) (Some written) =
                 Some (X row, Y row, Z row) \<and>
               PDB_File row = splitext_root (save_name env pdb sc) \<and> Score row = sc)) \<and>
         (is_sort_values srt \<and> r \<in> set (concat results) \<longrightarrow>
            (\<exists>t. docking_center_table srt results = Some t \<and>
                 \<lparr>PDB_File = PDB_File r, X = X r, Y = Y r, Z = Z r\<rparr> \<in> set t))"
proof -
  note c = centre_of_known [OF known some]
  have w: "\<exists>ob sc d written.
               residue_items (py_int env) Map.empty (split_ws (strip ob)) = Some d \<and>
               save_pocket2pdb env pdb d (save_path env pdb output_dir sc) = Some written \<and>
               calculate_average_coordinates (py_float env) (Some written) =
                 Some (X row, Y row, Z row) \<and>
               PDB_File row = splitext_root (save_name env pdb sc) \<and> Score row = sc"
    if "row \<in> set (process_one_pdb env (pdb, output_dir))"
    using that by (rule process_one_pdb_rows)
  have r: "py_round (float_mean xs) 3 =
           binary64 (of_int (round_half_even (float_mean xs * 1000)) / 1000)"
    by (simp add: py_round_def)
  have p: "pocket_round env pdb output_dir obj score =
              Inr (Some \<lparr>PDB_File = splitext_root (save_name env pdb score),
                         X = py_round (float_mean (atom_coords flt 30 38 file_lines)) 3,
                         Y = py_round (float_mean (atom_coords flt 38 46 file_lines)) 3,
                         Z = py_round (float_mean (atom_coords flt 46 54 file_lines)) 3,
                         Score = score\<rparr>)"
    if "py_float env = flt"
       "residue_items (py_int env) Map.empty (split_ws (strip obj)) = Some residue_dict"
       "save_pocket2pdb env pdb residue_dict (save_path env pdb output_dir score) = Some file_lines"
    using that c(1) by (simp add: pocket_round_def)
  have t: "\<exists>t. docking_center_table srt results = Some t \<and>
                 \<lparr>PDB_File = PDB_File r, X = X r, Y = Y r, Z = Z r\<rparr> \<in> set t"
    if "is_sort_values srt" "r \<in> set (concat results)"
    using table_has_columns [OF that] by (simp add: columns_def)
  show ?thesis
    using c(1) r centre_near_mean [OF c(2)] centre_near_mean [OF c(3)]
      centre_near_mean [OF c(4)] p w t
    by (intro conjI impI) blast+
qed

theorem C7_centre_near_mean_witness:
  "calculate_average_coordinates dec_float (Some [''HEADER'',
       ''ATOM      1  CA  ALA A   1       1.000   2.000  -3.000  1.00  0.00           C'',
       ''ATOM      2  CA  ALA A   2       2.001   4.000  -1.500  1.00  0.00           C'',
       ''END'']) =
     Some (3 / 2, 3, - (9 / 4))"
proof -
  let ?ls = "[''HEADER'',
       ''ATOM      1  CA  ALA A   1       1.000   2.000  -3.000  1.00  0.00           C'',
       ''ATOM      2  CA  ALA A   2       2.001   4.000  -1.500  1.00  0.00           C'',
       ''END'']"
  have known: "\<forall>l\<in>set ?ls. prefix ''ATOM'' l \<longrightarrow>
        dec_float (field 30 38 l) \<noteq> None \<and> dec_float (field 38 46 l) \<noteq> None \<and>
        dec_float (field 46 54 l) \<noteq> None"
    by code_simp
  have some: "\<exists>l\<in>set ?ls. prefix ''ATOM'' l"
    by code_simp
  from C7_centre_near_mean [OF known some]
  have "calculate_average_coordinates dec_float (Some ?ls) =
     Some (py_round (float_mean (atom_coords dec_float 30 38 ?ls)) 3,
           py_round (float_mean (atom_coords dec_float 38 46 ?ls)) 3,
           py_round (float_mean (atom_coords dec_float 46 54 ?ls)) 3)"
    by (rule conjunct1)
  also have "\<dots> = Some (3 / 2, 3, - (9 / 4))"
    by code_simp
  finally show ?thesis .
qed



section \<open>Facts about \<^verbatim>\<open>process_one_pdb\<close>\<close>

lemma pocket_round_key:
  "pocket_round env pdb output_dir obj score = Inr (Some r) \<Longrightarrow>
     PDB_File r = splitext_root (save_name env pdb score) \<and> Score r = score"
  by (auto simp: pocket_round_def split: option.splits)

lemma pocket_rounds_subseq:
  "\<exists>ys. subseq ys (map (\<lambda>(obj, s). (splitext_root (save_name env pdb s), s)) ps) \<and>
     map (\<lambda>r. (PDB_File r, Score r)) (pocket_rounds env pdb output_dir acc ps) =
       map (\<lambda>r. (PDB_File r, Score r)) acc @ ys"
proof (induction ps arbitrary: acc)
  case Nil
  then show ?case by simp
next
  case (Cons p ps)
  obtain obj s where p: "p = (obj, s)" by (cases p)
  let ?f = "\<lambda>(obj, s). (splitext_root (save_name env pdb s), s)"
  show ?case
  proof (cases "pocket_round env pdb output_dir obj s")
    case (Inl e)
    then show ?thesis by (auto simp: p intro!: exI [of _ "[]"])
  next
    case (Inr ro)
    show ?thesis
    proof (cases ro)
      case None
      from Cons [of acc] obtain ys where
        "subseq ys (map ?f ps)"
        "map (\<lambda>r. (PDB_File r, Score r)) (pocket_rounds env pdb output_dir acc ps) =
           map (\<lambda>r. (PDB_File r, Score r)) acc @ ys"
        by blast
      then show ?thesis
        using Inr None by (auto simp: p intro!: exI [of _ ys])
    next
      case (Some r)
      from Cons [of "acc @ [r]"] obtain ys where
        ys: "subseq ys (map ?f ps)"
        "map (\<lambda>r. (PDB_File r, Score r)) (pocket_rounds env pdb output_dir (acc @ [r]) ps) =
           map (\<lambda>r. (PDB_File r, Score r)) (acc @ [r]) @ ys"
        by blast
      have k: "(PDB_File r, Score r) = ?f (obj, s)"
        using pocket_round_key [of env pdb output_dir obj s r] Inr Some by simp
      show ?thesis
        using Inr Some ys k by (auto simp: p intro!: exI [of _ "?f (obj, s) # ys"])
    qed
  qed
qed

lemma pocket_rounds_length:
  "length (pocket_rounds env pdb output_dir acc ps) \<le> length acc + length ps"
proof (induction ps arbitrary: acc)
  case Nil
  then show ?case by simp
next
  case (Cons p ps)
  obtain obj s where p: "p = (obj, s)" by (cases p)
  show ?case
    using Cons [of acc] Cons [of "acc @ [the (projr (pocket_round env pdb output_dir obj s))]"]
    by (auto simp: p split: sum.splits option.splits)
qed

lemma splitext_root_pdb:
  assumes "CHR ''/'' \<notin> set sc" and "CHR ''/'' \<notin> set stem"
  shows "splitext_root (''pocket_'' @ sc @ ''_'' @ stem @ ''.pdb'') = ''pocket_'' @ sc @ ''_'' @ stem"
proof -
  let ?p = "''pocket_'' @ sc @ ''_'' @ stem @ ''.pdb''"
  have b: "basename ?p = ?p"
    using assms by (intro basename_id) auto
  have r: "rev ?p = ''bdp.'' @ rev (''pocket_'' @ sc @ ''_'' @ stem)"
    by simp
  have "rev (tl (dropWhile (\<lambda>c. c \<noteq> CHR ''.'') (rev ?p))) = ''pocket_'' @ sc @ ''_'' @ stem"
    unfolding r by simp
  then show ?thesis
    unfolding splitext_root_def b Let_def by simp
qed

lemma key_of_pdb:
  assumes "basename pdb = stem @ ''.pdb''" and "CHR ''/'' \<notin> set (str_score env s)"
  shows "splitext_root (save_name env pdb s) = ''pocket_'' @ str_score env s @ ''_'' @ stem"
proof -
  have "CHR ''/'' \<notin> set (basename pdb)" by (rule basename_no_slash)
  then have "CHR ''/'' \<notin> set stem" using assms(1) by simp
  with assms(2) have "splitext_root (''pocket_'' @ str_score env s @ ''_'' @ stem @ ''.pdb'') =
      ''pocket_'' @ str_score env s @ ''_'' @ stem"
    by (rule splitext_root_pdb)
  then show ?thesis
    by (simp only: save_name_def assms(1))
qed

lemma save_path_differs:
  assumes "str_score env s \<noteq> str_score env s'"
  shows "save_path env pdb output_dir s \<noteq> save_path env pdb output_dir s'"
  using assms by (auto simp: save_path_def save_name_def path_join_def)

section \<open>Facts about the coordinate table\<close>

lemma sort_key_is_sort_values: "is_sort_values (sort_key PDB_File)"
  by (simp add: is_sort_values_def)









section \<open>C9: the pockets kept for one protein\<close>

text \<open>
  C9 (as stated): no two candidates overwrite one another, and in the final table the
  rows of one protein are ordered by descending score. A protein whose three pockets are
  ranked 0.9, 0.7 and 0.7: the second and the third pocket get the same key and the same
  pocket file, which holds the third pocket after the run although the two rows have
  different centres; and the table lists the keys in ascending order of their text, the
  pocket ranked first coming last.
\<close>

theorem C9_equal_scores_and_ascending_table:
  "map (\<lambda>r. (PDB_File r, X r)) (process_one_pdb
     \<lparr>predictions = (\<lambda>p. Some [(''A_1'', ''0.9''), (''A_2'', ''0.7''), (''A_3'', ''0.7'')]),
      save_pocket2pdb = (\<lambda>pdb d p. if d ''A'' = Some [3]
         then Some [''ATOM      1  CA  ALA A   2       2.000   2.000  -3.000  1.00  0.00           C'']
         else Some [''ATOM      1  CA  ALA A   1       1.000   2.000  -3.000  1.00  0.00           C'']),
      py_float = dec_float, py_int = dec_int, str_score = (\<lambda>s. s)\<rparr>
     (''in/proteinA.pdb'', ''out'')) =
     [(''pocket_0.9_proteinA'', 1), (''pocket_0.7_proteinA'', 1), (''pocket_0.7_proteinA'', 2)] \<and>
   process_one_pdb_files
     \<lparr>predictions = (\<lambda>p. Some [(''A_1'', ''0.9''), (''A_2'', ''0.7''), (''A_3'', ''0.7'')]),
      save_pocket2pdb = (\<lambda>pdb d p. if d ''A'' = Some [3]
         then Some [''ATOM      1  CA  ALA A   2       2.000   2.000  -3.000  1.00  0.00           C'']
         else Some [''ATOM      1  CA  ALA A   1       1.000   2.000  -3.000  1.00  0.00           C'']),
      py_float = dec_float, py_int = dec_int, str_score = (\<lambda>s. s)\<rparr>
     (''in/proteinA.pdb'', ''out'') Map.empty ''out/pocket_0.7_proteinA.pdb'' =
     Some [''ATOM      1  CA  ALA A   2       2.000   2.000  -3.000  1.00  0.00           C''] \<and>
   map_option (map PDB_File) (docking_center_table (sort_key PDB_File) [process_one_pdb
     \<lparr>predictions = (\<lambda>p. Some [(''A_1'', ''0.9''), (''A_2'', ''0.7''), (''A_3'', ''0.7'')]),
      save_pocket2pdb = (\<lambda>pdb d p. if d ''A'' = Some [3]
         then Some [''ATOM      1  CA  ALA A   2       2.000   2.000  -3.000  1.00  0.00           C'']
         else Some [''ATOM      1  CA  ALA A   1       1.000   2.000  -3.000  1.00  0.00           C'']),
      py_float = dec_float, py_int = dec_int, str_score = (\<lambda>s. s)\<rparr>
     (''in/proteinA.pdb'', ''out'')]) =
     Some [''pocket_0.7_proteinA'', ''pocket_0.7_proteinA'', ''pocket_0.9_proteinA'']"
  by code_simp

text \<open>
  C9 (amended): for every protein only the first three rows of the prediction table are
  used, so that at most three records are produced; the records keep the rank order of
  those rows, and each is keyed by its save name \<open>pocket_<score>_<file name>\<close> without
  the extension, which for a file \<open><protein>.pdb\<close> and a score printed without a slash
  is \<open>pocket_<score>_<protein>\<close>. Two candidates of a protein whose scores are printed
  differently get different pocket files and, for such a file and such scores, different
  keys; two candidates whose scores are printed alike get the same key and the same
  pocket file. The final table is sorted in ascending order of the key text.
\<close>

theorem C9_top_three_keyed_and_sorted:
  assumes "predictions env pdb = Some rows" and "is_sort_values sort_values"
  shows "length (process_one_pdb env (pdb, output_dir)) \<le> 3 \<and>
         subseq (map (\<lambda>r. (PDB_File r, Score r)) (process_one_pdb env (pdb, output_dir)))
           (map (\<lambda>(obj, s). (splitext_root (save_name env pdb s), s)) (take 3 rows)) \<and>
         (basename pdb = stem @ ''.pdb'' \<and> CHR ''/'' \<notin> set (str_score env s) \<longrightarrow>
            splitext_root (save_name env pdb s) = ''pocket_'' @ str_score env s @ ''_'' @ stem) \<and>
         (basename pdb = stem @ ''.pdb'' \<and> CHR ''/'' \<notin> set (str_score env s) \<and>
          CHR ''/'' \<notin> set (str_score env s') \<and> str_score env s \<noteq> str_score env s' \<longrightarrow>
            splitext_root (save_name env pdb s) \<noteq> splitext_root (save_name env pdb s')) \<and>
         (str_score env s \<noteq> str_score env s' \<longrightarrow>
            save_path env pdb output_dir s \<noteq> save_path env pdb output_dir s') \<and>
         (str_score env s = str_score env s' \<longrightarrow>
            save_path env pdb output_dir s = save_path env pdb output_dir s' \<and>
            splitext_root (save_name env pdb s) = splitext_root (save_name env pdb s')) \<and>
         (docking_center_table sort_values results = Some t \<longrightarrow> sorted (map PDB_File t))"
proof -
  have "take (min 3 (length rows)) rows = take 3 rows"
    by (simp add: min_def)
  then have z: "zip (map fst (take (min 3 (length rows)) rows))
                  (map snd (take (min 3 (length rows)) rows)) = take 3 rows"
    by (simp only: zip_map_fst_snd)
  have p: "process_one_pdb env (pdb, output_dir) = pocket_rounds env pdb output_dir [] (take 3 rows)"
    using assms(1) by (simp add: process_one_pdb_def extract_predicted_pocket_def z)
  have "length (pocket_rounds env pdb output_dir [] (take 3 rows)) \<le> length (take 3 rows)"
    using pocket_rounds_length [of env pdb output_dir "[]" "take 3 rows"] by simp
  then have l: "length (process_one_pdb env (pdb, output_dir)) \<le> 3"
    unfolding p by simp
  have q: "subseq (map (\<lambda>r. (PDB_File r, Score r)) (process_one_pdb env (pdb, output_dir)))
           (map (\<lambda>(obj, s). (splitext_root (save_name env pdb s), s)) (take 3 rows))"
    using pocket_rounds_subseq [of env pdb "take 3 rows" output_dir "[]"] unfolding p by auto
  have k: "splitext_root (save_name env pdb s) = ''pocket_'' @ str_score env s @ ''_'' @ stem"
    if "basename pdb = stem @ ''.pdb''" "CHR ''/'' \<notin> set (str_score env s)" for s
    using that by (rule key_of_pdb)
  have d: "splitext_root (save_name env pdb s) \<noteq> splitext_root (save_name env pdb s')"
    if "basename pdb = stem @ ''.pdb''" "CHR ''/'' \<notin> set (str_score env s)"
       "CHR ''/'' \<notin> set (str_score env s')" "str_score env s \<noteq> str_score env s'"
    using that by (simp add: k)
  have t: "docking_center_table sort_values results = Some t \<longrightarrow> sorted (map PDB_File t)"
    using assms(2) by (auto simp: docking_center_table_def is_sort_values_def Let_def split: if_splits)
  have e: "save_path env pdb output_dir s = save_path env pdb output_dir s' \<and>
           splitext_root (save_name env pdb s) = splitext_root (save_name env pdb s')"
    if "str_score env s = str_score env s'"
    using that by (simp add: save_path_def save_name_def)
  show ?thesis
    using l q k d e t save_path_differs [of env s s' pdb output_dir] by blast
qed

theorem C9_top_three_keyed_and_sorted_witness:
  "length (process_one_pdb
     \<lparr>predictions = (\<lambda>p. Some [(''A_10 A_11'', ''0.9''), (''A_20 A_21'', ''0.7''),
                                  (''B_5'', ''0.5''), (''C_7'', ''0.4'')]),
      save_pocket2pdb = (\<lambda>pdb d p. Some [''ATOM      1  CA  ALA A   1       1.000   2.000  -3.000  1.00  0.00           C'']),
      py_float = dec_float, py_int = dec_int, str_score = (\<lambda>s. s)\<rparr>
     (''in/proteinA.pdb'', ''out'')) \<le> 3"
proof -
  let ?env = "\<lparr>predictions = (\<lambda>p. Some [(''A_10 A_11'', ''0.9''), (''A_20 A_21'', ''0.7''),
                                  (''B_5'', ''0.5''), (''C_7'', ''0.4'')]),
      save_pocket2pdb = (\<lambda>pdb d p. Some [''ATOM      1  CA  ALA A   1       1.000   2.000  -3.000  1.00  0.00           C'']),
      py_float = dec_float, py_int = dec_int, str_score = (\<lambda>s. s)\<rparr>"
  have h: "predictions ?env ''in/proteinA.pdb'' =
     Some [(''A_10 A_11'', ''0.9''), (''A_20 A_21'', ''0.7''), (''B_5'', ''0.5''), (''C_7'', ''0.4'')]"
    by simp
  from C9_top_three_keyed_and_sorted [OF h sort_key_is_sort_values, of "''out''"]
  show ?thesis
    by (rule conjunct1)
qed

section \<open>C6: equal keys and the order of delivery\<close>




section \<open>Facts about the rescoring stage\<close>

lemma upt_0_Suc_map: "[0..<Suc n] = 0 # map Suc [0..<n]"
  by (simp add: upt_conv_Cons map_Suc_upt del: upt_Suc)

lemma score_rows_tail:
  "2 \<le> idx \<Longrightarrow> score_rows eng idx ps =
     map (\<lambda>i. Row (''MODEL_'' @ str_nat (idx + i)) (fst (ps ! i)) (snd (ps ! i))
                  (binary64 (binary64 (fst (ps ! i) + snd (ps ! i)) * (1 / 2)))) [0..<length ps]"
proof (induction ps arbitrary: idx)
  case Nil
  then show ?case by simp
next
  case (Cons p ps)
  obtain a b where p: "p = (a, b)" by (cases p)
  have "idx \<noteq> 1" using Cons.prems by simp
  moreover have "score_rows eng (Suc idx) ps =
     map (\<lambda>i. Row (''MODEL_'' @ str_nat (Suc idx + i)) (fst (ps ! i)) (snd (ps ! i))
                  (binary64 (binary64 (fst (ps ! i) + snd (ps ! i)) * (1 / 2)))) [0..<length ps]"
    using Cons.prems by (intro Cons.IH) simp
  ultimately show ?case
    by (simp add: p upt_0_Suc_map comp_def del: upt_Suc)
qed

lemma score_rows_first:
  "ps \<noteq> [] \<Longrightarrow> score_rows eng 1 ps =
     Header (csv_header eng) #
     map (\<lambda>i. Row (''MODEL_'' @ str_nat (Suc i)) (fst (ps ! i)) (snd (ps ! i))
                  (binary64 (binary64 (fst (ps ! i) + snd (ps ! i)) * (1 / 2)))) [0..<length ps]"
proof (cases ps)
  case Nil
  then show "ps \<noteq> [] \<Longrightarrow> ?thesis" by simp
next
  case (Cons p rest)
  obtain a b where p: "p = (a, b)" by (cases p)
  have "score_rows eng (Suc 1) rest =
     map (\<lambda>i. Row (''MODEL_'' @ str_nat (Suc 1 + i)) (fst (rest ! i)) (snd (rest ! i))
                  (binary64 (binary64 (fst (rest ! i) + snd (rest ! i)) * (1 / 2)))) [0..<length rest]"
    by (intro score_rows_tail) simp
  then show ?thesis
    by (simp add: Cons p upt_0_Suc_map comp_def del: upt_Suc)
qed

lemma combined_rows_eq:
  "combined_rows eng primary sfct =
     (if primary = [] \<or> sfct = [] then []
      else Header (csv_header eng) #
           map (\<lambda>i. Row (''MODEL_'' @ str_nat (Suc i)) (primary ! i) (sfct ! i)
                        (binary64 (binary64 (primary ! i + sfct ! i) * (1 / 2))))
             [0..<min (length primary) (length sfct)])"
proof (cases "primary = [] \<or> sfct = []")
  case True
  then show ?thesis by (auto simp: combined_rows_def)
next
  case False
  let ?ps = "zip primary sfct"
  have ne: "?ps \<noteq> []"
    using False by (cases primary; cases sfct) auto
  have "map (\<lambda>i. Row (''MODEL_'' @ str_nat (Suc i)) (fst (?ps ! i)) (snd (?ps ! i))
                  (binary64 (binary64 (fst (?ps ! i) + snd (?ps ! i)) * (1 / 2)))) [0..<length ?ps] =
        map (\<lambda>i. Row (''MODEL_'' @ str_nat (Suc i)) (primary ! i) (sfct ! i)
                        (binary64 (binary64 (primary ! i + sfct ! i) * (1 / 2))))
             [0..<min (length primary) (length sfct)]"
    by (rule map_cong) auto
  with score_rows_first [OF ne, of eng] False show ?thesis
    by (simp only: combined_rows_def de_Morgan_disj simp_thms if_True if_False)
qed





lemma process_protein_ligand_ok:
  assumes "process_protein_ligand eng env files pf lf = (Inr (), files')"
  shows "\<exists>ligand_lines primary sfct.
           read_ligand env lf = Some ligand_lines \<and>
           primary_scores eng (float_of env) ligand_lines = Inr primary \<and>
           sfct_scores eng (float_of env)
             (case scorer env pf lf of None \<Rightarrow> dat_files files (dat_filename env lf)
              | Some table \<Rightarrow> Some table) = Inr sfct \<and>
           (case csv_files files' (output_csv env lf) of None \<Rightarrow> [] | Some t \<Rightarrow> t) =
           (case csv_files files (output_csv env lf) of None \<Rightarrow> [] | Some t \<Rightarrow> t) @
             combined_rows eng primary sfct"
proof -
  define ran where "ran = (case scorer env pf lf of None \<Rightarrow> files
      | Some table \<Rightarrow> files\<lparr>dat_files := (dat_files files)(dat_filename env lf \<mapsto> table)\<rparr>)"
  have dat: "dat_files ran (dat_filename env lf) =
      (case scorer env pf lf of None \<Rightarrow> dat_files files (dat_filename env lf)
       | Some table \<Rightarrow> Some table)"
    by (simp add: ran_def split: option.splits)
  have csv: "csv_files ran = csv_files files"
    by (simp add: ran_def split: option.splits)
  note d = process_protein_ligand_def [of eng env files pf lf, folded ran_def, unfolded Let_def]
  obtain ligand_lines where l: "read_ligand env lf = Some ligand_lines"
    using assms by (cases "read_ligand env lf") (simp_all add: d)
  obtain primary where p: "primary_scores eng (float_of env) ligand_lines = Inr primary"
    using assms by (cases "primary_scores eng (float_of env) ligand_lines") (simp_all add: d l)
  obtain sfct where
    s: "sfct_scores eng (float_of env) (dat_files ran (dat_filename env lf)) = Inr sfct"
    using assms
    by (cases "sfct_scores eng (float_of env) (dat_files ran (dat_filename env lf))")
       (simp_all add: d l p)
  have "(case csv_files files' (output_csv env lf) of None \<Rightarrow> [] | Some t \<Rightarrow> t) =
        (case csv_files ran (output_csv env lf) of None \<Rightarrow> [] | Some t \<Rightarrow> t) @
          combined_rows eng primary sfct"
  proof (cases "primary \<noteq> [] \<and> sfct \<noteq> []")
    case True
    then have "files' = ran\<lparr>csv_files := (csv_files ran)(output_csv env lf \<mapsto>
        (case csv_files ran (output_csv env lf) of None \<Rightarrow> [] | Some old \<Rightarrow> old) @
          combined_rows eng primary sfct)\<rparr>"
      using assms by (simp add: d l p s)
    then show ?thesis by simp
  next
    case False
    then have "files' = ran"
      using assms by (auto simp: d l p s)
    moreover have "combined_rows eng primary sfct = []"
      using False by (auto simp: combined_rows_def)
    ultimately show ?thesis by simp
  qed
  with l p s show ?thesis
    unfolding dat csv by blast
qed








lemma fused_error: "\<bar>binary64 (binary64 s * (1 / 2)) - s / 2\<bar> \<le> \<bar>s\<bar> / 2 ^ 52"
proof -
  define t where "t = binary64 s"
  have e1: "\<bar>t - s\<bar> \<le> \<bar>s\<bar> / 2 ^ 53"
    unfolding t_def by (rule binary64_error)
  have "\<bar>t\<bar> \<le> \<bar>s\<bar> + \<bar>t - s\<bar>" by simp
  with e1 have t: "\<bar>t\<bar> \<le> \<bar>s\<bar> + \<bar>s\<bar> / 2 ^ 53" by linarith
  have "\<bar>s\<bar> / 2 ^ 53 \<le> \<bar>s\<bar>"
    by (simp add: field_simps)
  with t have t2: "\<bar>t\<bar> \<le> 2 * \<bar>s\<bar>" by linarith
  have "\<bar>binary64 (t * (1 / 2)) - t * (1 / 2)\<bar> \<le> \<bar>t * (1 / 2)\<bar> / 2 ^ 53"
    by (rule binary64_error)
  also have "\<dots> = \<bar>t\<bar> / 2 ^ 54"
    by (simp add: abs_mult)
  also have "\<dots> \<le> 2 * \<bar>s\<bar> / 2 ^ 54"
    using t2 by (simp only: divide_right_mono zero_le_power zero_le_numeral)
  finally have e2: "\<bar>binary64 (t * (1 / 2)) - t * (1 / 2)\<bar> \<le> \<bar>s\<bar> / 2 ^ 53"
    by simp
  have "\<bar>binary64 (t * (1 / 2)) - s / 2\<bar> \<le>
        \<bar>binary64 (t * (1 / 2)) - t * (1 / 2)\<bar> + \<bar>t - s\<bar> / 2"
    by (simp add: abs_if field_simps)
  also have "\<dots> \<le> \<bar>s\<bar> / 2 ^ 53 + \<bar>s\<bar> / 2 ^ 53"
  proof (rule add_mono [OF e2])
    have "\<bar>t - s\<bar> / 2 \<le> \<bar>t - s\<bar>" by simp
    then show "\<bar>t - s\<bar> / 2 \<le> \<bar>s\<bar> / 2 ^ 53"
      using e1 by (rule order_trans)
  qed
  also have "\<dots> = \<bar>s\<bar> / 2 ^ 52"
    by simp
  finally show ?thesis
    unfolding t_def .
qed



section \<open>C3: errors of single items in the rescoring stage\<close>




section \<open>C4 and C5: the combined score table\<close>

text \<open>
  C4 (as stated): the combined score of a pose in the table is the mean of that pose's
  two scores. A docking result with two poses, scored -5.30 and -5.00; the scorer's table
  has no number in the line of the first pose and -1.4 in the line of the second. The row
  \<open>MODEL_1\<close> holds the first pose's docking score next to the second pose's rescoring
  score, and its combined score, the float \<open>-3.3499999999999996\<close>, is not the mean of
  the two numbers in the row.
\<close>

theorem C4_row_pairs_other_pose_and_rounds:
  "primary_line Idock dec_float
     ''REMARK 921   NORMALIZED FREE ENERGY PREDICTED BY IDOCK:  -5.30 KCAL/MOL\<newline>'' =
     Inr (Some (- (5967269506265907 / 1125899906842624))) \<and>
   sfct_line Idock dec_float ''pose1 0 0 0 n/a\<newline>'' = Inr None \<and>
   sfct_line Idock dec_float ''pose2 0 0 0 -1.4\<newline>'' =
     Inr (Some (- (3152519739159347 / 2251799813685248))) \<and>
   csv_files (snd (process_protein_ligand Idock
      \<lparr>output_folder_sfct = ''out/'',
       read_ligand = (\<lambda>p. Some
         [''REMARK 921   NORMALIZED FREE ENERGY PREDICTED BY IDOCK:  -5.30 KCAL/MOL\<newline>'',
          ''REMARK 921   NORMALIZED FREE ENERGY PREDICTED BY IDOCK:  -5.00 KCAL/MOL\<newline>'']),
       scorer = (\<lambda>pf lf. Some [''# name a b c sfct\<newline>'', ''pose1 0 0 0 n/a\<newline>'',
                             ''pose2 0 0 0 -1.4\<newline>'']),
       float_of = dec_float\<rparr>
      \<lparr>dat_files = Map.empty, csv_files = Map.empty\<rparr> ''db/out-2xyz.pdbqt'' ''dock/pocket_0.9_2xyz_ligand_1.pdbqt''))
     ''out/pocket_0.9_2xyz_ligand_1.csv'' =
     Some [Header ''MODEL,idock_score,sfct_score,idock_sfct_combined'',
           Row ''MODEL_1'' (- (5967269506265907 / 1125899906842624))
             (- (3152519739159347 / 2251799813685248))
             (- (1885882343961395 / 562949953421312))] \<and>
   (- (1885882343961395 / 562949953421312) :: rat) \<noteq>
     (- (5967269506265907 / 1125899906842624) + - (3152519739159347 / 2251799813685248)) / 2"
  by code_simp

text \<open>
  C4 (amended): every row that a successful call of \<^verbatim>\<open>process_protein_ligand\<close> adds to
  a combined table is the row of a position \<open>i\<close> that both lists of scores have. Its
  name is \<open>MODEL_\<close> followed by \<open>i + 1\<close>, its primary score is the score at position \<open>i\<close>
  among those read from the docking result, its secondary score is the score at position
  \<open>i\<close> among those read from the scorer's table (lines that give no score are not
  counted, so the two need not belong to the same pose), and its combined score is the
  float product of the float sum of the two and one half, which differs from their
  arithmetic mean by at most \<open>\<bar>primary + secondary\<bar> / 2\<^sup>5\<^sup>2\<close>.
\<close>

theorem C4_combined_is_float_mean_by_position:
  assumes "process_protein_ligand eng env files pf lf = (Inr (), files')"
      and "csv_files files' (output_csv env lf) = Some table"
      and "Row m a b c \<in> set table"
  shows "Row m a b c \<in> set (case csv_files files (output_csv env lf) of None \<Rightarrow> [] | Some t \<Rightarrow> t) \<or>
         c = binary64 (binary64 (a + b) * (1 / 2)) \<and>
         \<bar>c - (a + b) / 2\<bar> \<le> \<bar>a + b\<bar> / 2 ^ 52 \<and>
         (\<exists>ligand_lines primary sfct i.
            read_ligand env lf = Some ligand_lines \<and>
            primary_scores eng (float_of env) ligand_lines = Inr primary \<and>
            sfct_scores eng (float_of env)
              (case scorer env pf lf of None \<Rightarrow> dat_files files (dat_filename env lf)
               | Some table \<Rightarrow> Some table) = Inr sfct \<and>
            i < length primary \<and> i < length sfct \<and>
            m = ''MODEL_'' @ str_nat (Suc i) \<and> a = primary ! i \<and> b = sfct ! i)"
proof -
  from process_protein_ligand_ok [OF assms(1)] obtain ligand_lines primary sfct where
    l: "read_ligand env lf = Some ligand_lines" and
    p: "primary_scores eng (float_of env) ligand_lines = Inr primary" and
    s: "sfct_scores eng (float_of env)
          (case scorer env pf lf of None \<Rightarrow> dat_files files (dat_filename env lf)
           | Some table \<Rightarrow> Some table) = Inr sfct" and
    t: "table = (case csv_files files (output_csv env lf) of None \<Rightarrow> [] | Some t \<Rightarrow> t) @
                  combined_rows eng primary sfct"
    using assms(2) by auto
  show ?thesis
  proof (cases "Row m a b c \<in> set (combined_rows eng primary sfct)")
    case False
    with t assms(3) show ?thesis by auto
  next
    case True
    then obtain i where i: "i < length primary" "i < length sfct"
      "m = ''MODEL_'' @ str_nat (Suc i)" "a = primary ! i" "b = sfct ! i"
      and c: "c = binary64 (binary64 (a + b) * (1 / 2))"
      by (auto simp: combined_rows_eq split: if_splits)
    have "\<bar>c - (a + b) / 2\<bar> \<le> \<bar>a + b\<bar> / 2 ^ 52"
      unfolding c by (rule fused_error)
    with l p s i c show ?thesis by blast
  qed
qed

theorem C4_combined_is_float_mean_by_position_witness:
  "process_protein_ligand Idock \<lparr>output_folder_sfct = ''out/'',
       read_ligand = (\<lambda>p. Some
         [''REMARK 921   NORMALIZED FREE ENERGY PREDICTED BY IDOCK:  -6.00 KCAL/MOL\<newline>'',
          ''REMARK 921   NORMALIZED FREE ENERGY PREDICTED BY IDOCK:  -5.00 KCAL/MOL\<newline>'']),
       scorer = (\<lambda>pf lf. if pf = ''db/out-1abc.pdbqt'' then None
                  else Some [''# name a b c sfct\<newline>'', ''pose1 0 0 0 -1.0\<newline>'',
                             ''pose2 0 0 0 -2.0\<newline>'']),
       float_of = dec_float\<rparr> \<lparr>dat_files = Map.empty, csv_files = Map.empty\<rparr> ''db/out-2xyz.pdbqt'' ''dock/pocket_0.9_2xyz_ligand_1.pdbqt'' =
     (Inr (), snd (process_protein_ligand Idock \<lparr>output_folder_sfct = ''out/'',
       read_ligand = (\<lambda>p. Some
         [''REMARK 921   NORMALIZED FREE ENERGY PREDICTED BY IDOCK:  -6.00 KCAL/MOL\<newline>'',
          ''REMARK 921   NORMALIZED FREE ENERGY PREDICTED BY IDOCK:  -5.00 KCAL/MOL\<newline>'']),
       scorer = (\<lambda>pf lf. if pf = ''db/out-1abc.pdbqt'' then None
                  else Some [''# name a b c sfct\<newline>'', ''pose1 0 0 0 -1.0\<newline>'',
                             ''pose2 0 0 0 -2.0\<newline>'']),
       float_of = dec_float\<rparr> \<lparr>dat_files = Map.empty, csv_files = Map.empty\<rparr> ''db/out-2xyz.pdbqt''
                     ''dock/pocket_0.9_2xyz_ligand_1.pdbqt'')) \<and>
   csv_files (snd (process_protein_ligand Idock \<lparr>output_folder_sfct = ''out/'',
       read_ligand = (\<lambda>p. Some
         [''REMARK 921   NORMALIZED FREE ENERGY PREDICTED BY IDOCK:  -6.00 KCAL/MOL\<newline>'',
          ''REMARK 921   NORMALIZED FREE ENERGY PREDICTED BY IDOCK:  -5.00 KCAL/MOL\<newline>'']),
       scorer = (\<lambda>pf lf. if pf = ''db/out-1abc.pdbqt'' then None
                  else Some [''# name a b c sfct\<newline>'', ''pose1 0 0 0 -1.0\<newline>'',
                             ''pose2 0 0 0 -2.0\<newline>'']),
       float_of = dec_float\<rparr> \<lparr>dat_files = Map.empty, csv_files = Map.empty\<rparr> ''db/out-2xyz.pdbqt''
                     ''dock/pocket_0.9_2xyz_ligand_1.pdbqt''))
     (output_csv \<lparr>output_folder_sfct = ''out/'',
       read_ligand = (\<lambda>p. Some
         [''REMARK 921   NORMALIZED FREE ENERGY PREDICTED BY IDOCK:  -6.00 KCAL/MOL\<newline>'',
          ''REMARK 921   NORMALIZED FREE ENERGY PREDICTED BY IDOCK:  -5.00 KCAL/MOL\<newline>'']),
       scorer = (\<lambda>pf lf. if pf = ''db/out-1abc.pdbqt'' then None
                  else Some [''# name a b c sfct\<newline>'', ''pose1 0 0 0 -1.0\<newline>'',
                             ''pose2 0 0 0 -2.0\<newline>'']),
       float_of = dec_float\<rparr> ''dock/pocket_0.9_2xyz_ligand_1.pdbqt'') =
     Some [Header ''MODEL,idock_score,sfct_score,idock_sfct_combined'',
           Row ''MODEL_1'' (- 6) (- 1) (- (7 / 2)), Row ''MODEL_2'' (- 5) (- 2) (- (7 / 2))] \<and>
   (- (7 / 2) :: rat) = binary64 (binary64 (- 6 + - 1) * (1 / 2)) \<and>
   \<bar>- (7 / 2) - (- 6 + - 1) / 2\<bar> \<le> \<bar>- 6 + - 1 :: rat\<bar> / 2 ^ 52"
proof -
  let ?env = "\<lparr>output_folder_sfct = ''out/'',
       read_ligand = (\<lambda>p. Some
         [''REMARK 921   NORMALIZED FREE ENERGY PREDICTED BY IDOCK:  -6.00 KCAL/MOL\<newline>'',
          ''REMARK 921   NORMALIZED FREE ENERGY PREDICTED BY IDOCK:  -5.00 KCAL/MOL\<newline>'']),
       scorer = (\<lambda>pf lf. if pf = ''db/out-1abc.pdbqt'' then None
                  else Some [''# name a b c sfct\<newline>'', ''pose1 0 0 0 -1.0\<newline>'',
                             ''pose2 0 0 0 -2.0\<newline>'']),
       float_of = dec_float\<rparr>"
  let ?pf = "''db/out-2xyz.pdbqt''" and ?lf = "''dock/pocket_0.9_2xyz_ligand_1.pdbqt''"
  let ?table = "[Header ''MODEL,idock_score,sfct_score,idock_sfct_combined'',
           Row ''MODEL_1'' (- 6) (- 1) (- (7 / 2)), Row ''MODEL_2'' (- 5) (- 2) (- (7 / 2))]"
  have f: "fst (process_protein_ligand Idock ?env \<lparr>dat_files = Map.empty, csv_files = Map.empty\<rparr> ?pf ?lf) = Inr ()"
    by code_simp
  then have ok: "process_protein_ligand Idock ?env \<lparr>dat_files = Map.empty, csv_files = Map.empty\<rparr> ?pf ?lf =
      (Inr (), snd (process_protein_ligand Idock ?env \<lparr>dat_files = Map.empty, csv_files = Map.empty\<rparr> ?pf ?lf))"
    by (metis prod.collapse)
  have tbl: "csv_files (snd (process_protein_ligand Idock ?env \<lparr>dat_files = Map.empty, csv_files = Map.empty\<rparr> ?pf ?lf)) (output_csv ?env ?lf) =
      Some ?table"
    by code_simp
  have row: "Row ''MODEL_1'' (- 6) (- 1) (- (7 / 2)) \<in> set ?table"
    by simp
  have old: "Row ''MODEL_1'' (- 6) (- 1) (- (7 / 2)) \<notin>
      set (case csv_files \<lparr>dat_files = Map.empty, csv_files = Map.empty\<rparr> (output_csv ?env ?lf) of None \<Rightarrow> [] | Some t \<Rightarrow> t)"
    by simp
  from C4_combined_is_float_mean_by_position [OF ok tbl row] old
  have "(- (7 / 2) :: rat) = binary64 (binary64 (- 6 + - 1) * (1 / 2)) \<and>
        \<bar>- (7 / 2) - (- 6 + - 1) / 2\<bar> \<le> \<bar>- 6 + - 1 :: rat\<bar> / 2 ^ 52"
    by blast
  with ok tbl show ?thesis by blast
qed

text \<open>
  C5 (as stated): a pose with only one of its two scores does not appear in the table. A
  docking result with two poses, scored -6 and -5; the scorer's table has no score in the
  line of the first pose and -2 in the line of the second. The table gets a row
  \<open>MODEL_1\<close> that fuses the first pose's docking score with the second pose's
  rescoring score.
\<close>

theorem C5_partial_pair_is_fused:
  "sfct_line Idock dec_float ''pose1 0 0 0\<newline>'' = Inr None \<and>
   sfct_line Idock dec_float ''pose2 0 0 0 -2.0\<newline>'' = Inr (Some (- 2)) \<and>
   csv_files (snd (process_protein_ligand Idock
      \<lparr>output_folder_sfct = ''out/'',
       read_ligand = (\<lambda>p. Some
         [''REMARK 921   NORMALIZED FREE ENERGY PREDICTED BY IDOCK:  -6.00 KCAL/MOL\<newline>'',
          ''REMARK 921   NORMALIZED FREE ENERGY PREDICTED BY IDOCK:  -5.00 KCAL/MOL\<newline>'']),
       scorer = (\<lambda>pf lf. Some [''# name a b c sfct\<newline>'', ''pose1 0 0 0\<newline>'',
                             ''pose2 0 0 0 -2.0\<newline>'']),
       float_of = dec_float\<rparr>
      \<lparr>dat_files = Map.empty, csv_files = Map.empty\<rparr> ''db/out-2xyz.pdbqt'' ''dock/pocket_0.9_2xyz_ligand_1.pdbqt''))
     ''out/pocket_0.9_2xyz_ligand_1.csv'' =
     Some [Header ''MODEL,idock_score,sfct_score,idock_sfct_combined'',
           Row ''MODEL_1'' (- 6) (- 2) (- 4)]"
  by code_simp

text \<open>
  C5 (amended): when the docking result and the scorer's table can both be read, the call
  ends normally and appends nothing if either list of scores is empty; otherwise it
  appends the header and one row for every position that both lists have, so that the
  number of rows is the length of the shorter list and a position that only one list has
  gives no row.
\<close>

theorem C5_rows_of_common_positions:
  assumes "read_ligand env lf = Some ligand_lines"
      and "primary_scores eng (float_of env) ligand_lines = Inr primary"
      and "sfct_scores eng (float_of env)
             (case scorer env pf lf of None \<Rightarrow> dat_files files (dat_filename env lf)
              | Some table \<Rightarrow> Some table) = Inr sfct"
  shows "fst (process_protein_ligand eng env files pf lf) = Inr () \<and>
         (case csv_files (snd (process_protein_ligand eng env files pf lf)) (output_csv env lf) of
            None \<Rightarrow> [] | Some t \<Rightarrow> t) =
         (case csv_files files (output_csv env lf) of None \<Rightarrow> [] | Some t \<Rightarrow> t) @
           (if primary = [] \<or> sfct = [] then []
            else Header (csv_header eng) #
                 map (\<lambda>i. Row (''MODEL_'' @ str_nat (Suc i)) (primary ! i) (sfct ! i)
                              (binary64 (binary64 (primary ! i + sfct ! i) * (1 / 2))))
                   [0..<min (length primary) (length sfct)])"
proof -
  define ran where "ran = (case scorer env pf lf of None \<Rightarrow> files
      | Some table \<Rightarrow> files\<lparr>dat_files := (dat_files files)(dat_filename env lf \<mapsto> table)\<rparr>)"
  have dat: "dat_files ran (dat_filename env lf) =
      (case scorer env pf lf of None \<Rightarrow> dat_files files (dat_filename env lf)
       | Some table \<Rightarrow> Some table)"
    by (simp add: ran_def split: option.splits)
  have csv: "csv_files ran = csv_files files"
    by (simp add: ran_def split: option.splits)
  note d = process_protein_ligand_def [of eng env files pf lf, folded ran_def, unfolded Let_def]
  show ?thesis
  proof (cases "primary = [] \<or> sfct = []")
    case True
    then have "process_protein_ligand eng env files pf lf = (Inr (), ran)"
      using assms by (auto simp: d dat)
    with True show ?thesis by (simp add: csv)
  next
    case False
    then have "process_protein_ligand eng env files pf lf =
        (Inr (), ran\<lparr>csv_files := (csv_files ran)(output_csv env lf \<mapsto>
           (case csv_files ran (output_csv env lf) of None \<Rightarrow> [] | Some old \<Rightarrow> old) @
             combined_rows eng primary sfct)\<rparr>)"
      using assms by (simp add: d dat)
    moreover have "combined_rows eng primary sfct =
        Header (csv_header eng) #
          map (\<lambda>i. Row (''MODEL_'' @ str_nat (Suc i)) (primary ! i) (sfct ! i)
                       (binary64 (binary64 (primary ! i + sfct ! i) * (1 / 2))))
            [0..<min (length primary) (length sfct)]"
      using False by (simp add: combined_rows_eq)
    ultimately show ?thesis
      using False by (simp add: csv)
  qed
qed

theorem C5_rows_of_common_positions_witness:
  "fst (process_protein_ligand Idock \<lparr>output_folder_sfct = ''out/'',
       read_ligand = (\<lambda>p. Some
         [''REMARK 921   NORMALIZED FREE ENERGY PREDICTED BY IDOCK:  -6.00 KCAL/MOL\<newline>'',
          ''REMARK 921   NORMALIZED FREE ENERGY PREDICTED BY IDOCK:  -5.00 KCAL/MOL\<newline>'']),
       scorer = (\<lambda>pf lf. Some [''# name a b c sfct\<newline>'', ''pose1 0 0 0 -2.0\<newline>'']),
       float_of = dec_float\<rparr> \<lparr>dat_files = Map.empty, csv_files = Map.empty\<rparr> ''db/out-2xyz.pdbqt''
          ''dock/pocket_0.9_2xyz_ligand_1.pdbqt'') = Inr () \<and>
   csv_files (snd (process_protein_ligand Idock \<lparr>output_folder_sfct = ''out/'',
       read_ligand = (\<lambda>p. Some
         [''REMARK 921   NORMALIZED FREE ENERGY PREDICTED BY IDOCK:  -6.00 KCAL/MOL\<newline>'',
          ''REMARK 921   NORMALIZED FREE ENERGY PREDICTED BY IDOCK:  -5.00 KCAL/MOL\<newline>'']),
       scorer = (\<lambda>pf lf. Some [''# name a b c sfct\<newline>'', ''pose1 0 0 0 -2.0\<newline>'']),
       float_of = dec_float\<rparr> \<lparr>dat_files = Map.empty, csv_files = Map.empty\<rparr> ''db/out-2xyz.pdbqt''
          ''dock/pocket_0.9_2xyz_ligand_1.pdbqt'')) ''out/pocket_0.9_2xyz_ligand_1.csv'' =
     Some [Header ''MODEL,idock_score,sfct_score,idock_sfct_combined'',
           Row ''MODEL_1'' (- 6) (- 2) (- 4)]"
proof -
  let ?env = "\<lparr>output_folder_sfct = ''out/'',
       read_ligand = (\<lambda>p. Some
         [''REMARK 921   NORMALIZED FREE ENERGY PREDICTED BY IDOCK:  -6.00 KCAL/MOL\<newline>'',
          ''REMARK 921   NORMALIZED FREE ENERGY PREDICTED BY IDOCK:  -5.00 KCAL/MOL\<newline>'']),
       scorer = (\<lambda>pf lf. Some [''# name a b c sfct\<newline>'', ''pose1 0 0 0 -2.0\<newline>'']),
       float_of = dec_float\<rparr>"
  let ?pf = "''db/out-2xyz.pdbqt''" and ?lf = "''dock/pocket_0.9_2xyz_ligand_1.pdbqt''"
  let ?ll = "[''REMARK 921   NORMALIZED FREE ENERGY PREDICTED BY IDOCK:  -6.00 KCAL/MOL\<newline>'',
          ''REMARK 921   NORMALIZED FREE ENERGY PREDICTED BY IDOCK:  -5.00 KCAL/MOL\<newline>'']"
  have r: "read_ligand ?env ?lf = Some ?ll"
    by simp
  have p: "primary_scores Idock (float_of ?env) ?ll = Inr [- 6, - 5]"
    by code_simp
  have s: "sfct_scores Idock (float_of ?env)
             (case scorer ?env ?pf ?lf of None \<Rightarrow> dat_files \<lparr>dat_files = Map.empty, csv_files = Map.empty\<rparr> (dat_filename ?env ?lf)
              | Some table \<Rightarrow> Some table) = Inr [- 2]"
    by code_simp
  have n: "output_csv ?env ?lf = ''out/pocket_0.9_2xyz_ligand_1.csv''"
    by code_simp
  have c: "str_nat (Suc 0) = ''1''"
    by code_simp
  have v: "binary64 (binary64 (- 8) / 2) = (- 4 :: rat)"
    by code_simp
  have f: "fst (process_protein_ligand Idock ?env \<lparr>dat_files = Map.empty, csv_files = Map.empty\<rparr> ?pf ?lf) = Inr ()"
    using C5_rows_of_common_positions [OF r p s] by (rule conjunct1)
  have "(case csv_files (snd (process_protein_ligand Idock ?env \<lparr>dat_files = Map.empty, csv_files = Map.empty\<rparr> ?pf ?lf)) (output_csv ?env ?lf) of
            None \<Rightarrow> [] | Some t \<Rightarrow> t) =
        [Header ''MODEL,idock_score,sfct_score,idock_sfct_combined'',
           Row ''MODEL_1'' (- 6) (- 2) (- 4)]"
    using C5_rows_of_common_positions [OF r p s, THEN conjunct2] c
    by (simp add: csv_header_def v)
  then have "csv_files (snd (process_protein_ligand Idock ?env \<lparr>dat_files = Map.empty, csv_files = Map.empty\<rparr> ?pf ?lf)) (output_csv ?env ?lf) =
        Some [Header ''MODEL,idock_score,sfct_score,idock_sfct_combined'',
           Row ''MODEL_1'' (- 6) (- 2) (- 4)]"
    by (cases "csv_files (snd (process_protein_ligand Idock ?env \<lparr>dat_files = Map.empty, csv_files = Map.empty\<rparr> ?pf ?lf)) (output_csv ?env ?lf)")
       simp_all
  with f show ?thesis
    unfolding n by (rule conjI)
qed

end
